theory Spec2Isabelle
  imports Main
begin

section \<open>Haven TTRPG platform: message delivery, cooldown gate and digest scheduler\<close>

text \<open>
  A shallow embedding of the delivery code of \<^verbatim>\<open>ttrpg_platform/app\<close>:
  the two connection managers (\<^verbatim>\<open>routers/messages.py\<close>, \<^verbatim>\<open>routers/rp_chat.py\<close>),
  the dice parser and the persistence helpers of \<^verbatim>\<open>crud.py\<close>, the direct-message
  endpoint with its e-mail cooldown, and the digest task of \<^verbatim>\<open>routers/tasks.py\<close>.

  Conventions. A Python exception is a value of \<open>error\<close>; a function that can raise
  returns \<open>(error + 'a) \<times> world\<close>, the world being the state reached when the exception
  left the function. A \<^verbatim>\<open>WebSocket\<close> object is known by its identity, a natural number.
  Instants are microseconds since the epoch as \<open>int\<close>. What the program cannot decide
  itself (whether a socket accepts or takes a write, the clock, the mail server) is read
  from an \<open>env\<close> record. One call of an endpoint, and one run of the digest task, reads
  the clock as a single instant.
\<close>

subsection \<open>Errors, time, environment\<close>

datatype error =
    HTTPException nat
  | RuntimeError
  | TypeError
  | AttributeError
  | ValidationError
  | WebSocketError

type_synonym WebSocket = nat

text \<open>
  A \<^verbatim>\<open>datetime\<close> is naive (wall-clock fields only) or aware (wall-clock fields and a
  UTC offset). Both are kept in microseconds.
\<close>

datatype datetime = Naive int | Aware int int

definition timedelta_minutes :: "int \<Rightarrow> int" where
  "timedelta_minutes m = m * 60000000"

definition timedelta_hours :: "int \<Rightarrow> int" where
  "timedelta_hours h = h * 3600000000"

text \<open>\<^verbatim>\<open>dt + timedelta\<close> keeps the awareness and the offset.\<close>

fun dt_add :: "datetime \<Rightarrow> int \<Rightarrow> datetime" where
  "dt_add (Naive t) d = Naive (t + d)"
| "dt_add (Aware t off) d = Aware (t + d) off"

text \<open>The instant an aware value denotes; a naive value read as UTC.\<close>

fun utc_instant :: "datetime \<Rightarrow> int" where
  "utc_instant (Naive t) = t"
| "utc_instant (Aware t off) = t - off"

text \<open>
  \<^verbatim>\<open>a < b\<close> on datetimes: two aware values compare by instant, two naive ones by
  their fields, and a mixed comparison raises \<^verbatim>\<open>TypeError\<close>.
\<close>

fun dt_less :: "datetime \<Rightarrow> datetime \<Rightarrow> error + bool" where
  "dt_less (Aware a oa) (Aware b ob) = Inr (a - oa < b - ob)"
| "dt_less (Naive a) (Naive b) = Inr (a < b)"
| "dt_less (Aware a oa) (Naive b) = Inl TypeError"
| "dt_less (Naive a) (Aware b ob) = Inl TypeError"

text \<open>\<^verbatim>\<open>x.replace(tzinfo=timezone.utc) if x.tzinfo is None else x\<close>\<close>

fun replace_tzinfo_utc_if_naive :: "datetime \<Rightarrow> datetime" where
  "replace_tzinfo_utc_if_naive (Naive t) = Aware t 0"
| "replace_tzinfo_utc_if_naive (Aware t off) = Aware t off"

record env =
  accept_ok :: "WebSocket \<Rightarrow> bool"
  send_ok :: "WebSocket \<Rightarrow> bool"
  now_utc :: int
  current_year :: int
  db_tz_aware :: bool
  fm_instance :: bool
  valid_email :: "string \<Rightarrow> bool"
  smtp_ok :: "string \<Rightarrow> bool"
  frontend_url :: "string option"

text \<open>\<^verbatim>\<open>datetime.now(timezone.utc)\<close>\<close>

definition datetime_now_utc :: "env \<Rightarrow> datetime" where
  "datetime_now_utc e = Aware (now_utc e) 0"

text \<open>
  \<^verbatim>\<open>func.now()\<close> as the application reads it back from a \<^verbatim>\<open>DateTime(timezone=True)\<close>
  column: aware on a backend that keeps the zone, naive (UTC fields) on one that does not.
\<close>

definition func_now :: "env \<Rightarrow> datetime" where
  "func_now e = (if db_tz_aware e then Aware (now_utc e) 0 else Naive (now_utc e))"

subsection \<open>Tables of \<^verbatim>\<open>models.py\<close>\<close>

record User =
  u_id :: int
  username :: string
  email :: string
  nickname :: "string option"
  email_notifications_enabled :: bool
  last_digest_sent_at :: "datetime option"

record GameMessage =
  gm_id :: int
  gm_content :: string
  gm_timestamp :: datetime
  game_id :: int
  gm_sender_id :: "int option"
  sender_display_name :: "string option"
  sender_role :: "string option"
  sender_avatar_url :: "string option"
  character_id :: "string option"
  owner_user_id :: "string option"

record DirectMessage =
  dm_id :: int
  dm_content :: string
  dm_timestamp :: datetime
  sender_id :: int
  receiver_id :: int
  dm_is_read :: bool

text \<open>The \<^verbatim>\<open>Notification\<close> model declares exactly these columns.\<close>

record Notification =
  n_id :: int
  n_user_id :: int
  n_type :: string
  n_content :: string
  n_link :: "string option"
  is_read :: bool
  emailed_in_digest :: bool
  n_timestamp :: datetime

record DmNotificationCooldown =
  cd_id :: int
  original_sender_id :: int
  cd_receiver_id :: int
  last_email_sent_at :: "datetime option"

record database =
  users :: "User list"
  game_messages :: "GameMessage list"
  direct_messages :: "DirectMessage list"
  notifications :: "Notification list"
  dm_notification_cooldowns :: "DmNotificationCooldown list"

subsection \<open>The world\<close>

datatype frame = DmFrame DirectMessage | RpFrame GameMessage

text \<open>
  The template data of an e-mail: strings, the year, the formatted start of a digest period
  (kept as the datetime that \<^verbatim>\<open>strftime\<close> renders), and the dumped notifications of
  one digest group.
\<close>

datatype field_value = FStr string | FInt int | FBool bool | FTime datetime | FNone

datatype body_value =
    BStr string
  | BInt int
  | BSince datetime
  | BItems "(string \<times> field_value) list list"

record email_task =
  subject :: string
  recipient_email :: string
  body_data :: "(string \<times> body_value) list"
  template_name :: string

text \<open>
  Effects that leave no mark in a table are written to a trace: a read of the cooldown
  table, the digest query of one user, a call of the mailer with its outcome.
\<close>

datatype event =
    CooldownRead int int
  | DigestFetch int
  | SendMessage email_task bool

record world =
  manager :: "int \<rightharpoonup> WebSocket"
  rp_chat_manager :: "string \<rightharpoonup> WebSocket list"
  db :: database
  db_committed :: database
  wire :: "(WebSocket \<times> frame) list"
  background_tasks :: "email_task list"
  trace :: "event list"

definition db_commit :: "world \<Rightarrow> world" where
  "db_commit w = w\<lparr>db_committed := db w\<rparr>"

definition db_rollback :: "world \<Rightarrow> world" where
  "db_rollback w = w\<lparr>db := db_committed w\<rparr>"

text \<open>An autoincrement primary key: one more than the largest key in the table.\<close>

definition next_id :: "int list \<Rightarrow> int" where
  "next_id ids = foldr max ids 0 + 1"

subsection \<open>\<^verbatim>\<open>ConnectionManager\<close> (routers/messages.py)\<close>

definition connect :: "env \<Rightarrow> WebSocket \<Rightarrow> int \<Rightarrow> world \<Rightarrow> (error + unit) \<times> world" where
  "connect e websocket user_id w =
     (if accept_ok e websocket
      then (Inr (), w\<lparr>manager := (manager w)(user_id \<mapsto> websocket)\<rparr>)
      else (Inl WebSocketError, w))"

definition disconnect :: "int \<Rightarrow> world \<Rightarrow> world" where
  "disconnect user_id w =
     (if user_id \<in> dom (manager w)
      then w\<lparr>manager := (manager w)(user_id := None)\<rparr>
      else w)"

text \<open>
  The handler \<^verbatim>\<open>websocket_dm_endpoint\<close> after its receive loop ended (lines 239 to 243):
  both \<^verbatim>\<open>except\<close> clauses unregister by the user id of the socket's owner.
\<close>

definition websocket_dm_endpoint_closed :: "WebSocket \<Rightarrow> int \<Rightarrow> world \<Rightarrow> world" where
  "websocket_dm_endpoint_closed websocket user_id w = disconnect user_id w"

text \<open>
  \<^verbatim>\<open>send_personal_message_json\<close> has no \<^verbatim>\<open>return\<close> and no \<^verbatim>\<open>try\<close>: it yields
  \<^verbatim>\<open>None\<close>, and an exception of \<^verbatim>\<open>send_json\<close> leaves it as it is.
\<close>

definition send_personal_message_json ::
  "env \<Rightarrow> DirectMessage \<Rightarrow> int \<Rightarrow> world \<Rightarrow> (error + unit) \<times> world" where
  "send_personal_message_json e data user_id w =
     (case manager w user_id of
        None \<Rightarrow> (Inr (), w)
      | Some websocket \<Rightarrow>
          if send_ok e websocket
          then (Inr (), w\<lparr>wire := wire w @ [(websocket, DmFrame data)]\<rparr>)
          else (Inl WebSocketError, w))"

subsection \<open>\<^verbatim>\<open>RpConnectionManager\<close> (routers/rp_chat.py)\<close>

definition rp_connect :: "env \<Rightarrow> WebSocket \<Rightarrow> string \<Rightarrow> world \<Rightarrow> (error + unit) \<times> world" where
  "rp_connect e websocket channel_id w =
     (if accept_ok e websocket
      then (Inr (),
            w\<lparr>rp_chat_manager := (rp_chat_manager w)(channel_id \<mapsto>
                 (case rp_chat_manager w channel_id of None \<Rightarrow> [] | Some l \<Rightarrow> l) @ [websocket])\<rparr>)
      else (Inl WebSocketError, w))"

text \<open>\<^verbatim>\<open>list.remove\<close> deletes the first equal element: \<open>remove1\<close>.\<close>

definition rp_disconnect :: "WebSocket \<Rightarrow> string \<Rightarrow> world \<Rightarrow> world" where
  "rp_disconnect websocket channel_id w =
     (case rp_chat_manager w channel_id of
        None \<Rightarrow> w
      | Some l \<Rightarrow>
          if websocket \<in> set l
          then (let l' = remove1 websocket l in
                if l' = []
                then w\<lparr>rp_chat_manager := (rp_chat_manager w)(channel_id := None)\<rparr>
                else w\<lparr>rp_chat_manager := (rp_chat_manager w)(channel_id \<mapsto> l')\<rparr>)
          else w)"

text \<open>The loop of \<^verbatim>\<open>broadcast_to_channel\<close> over the copied list.\<close>

fun broadcast_loop :: "env \<Rightarrow> string \<Rightarrow> GameMessage \<Rightarrow> WebSocket list \<Rightarrow> world \<Rightarrow> world" where
  "broadcast_loop e channel_id message_data [] w = w"
| "broadcast_loop e channel_id message_data (connection # rest) w =
     broadcast_loop e channel_id message_data rest
       (if send_ok e connection
        then w\<lparr>wire := wire w @ [(connection, RpFrame message_data)]\<rparr>
        else rp_disconnect connection channel_id w)"

definition broadcast_to_channel :: "env \<Rightarrow> string \<Rightarrow> GameMessage \<Rightarrow> world \<Rightarrow> world" where
  "broadcast_to_channel e channel_id message_data w =
     (case rp_chat_manager w channel_id of
        None \<Rightarrow> w
      | Some connections_to_broadcast \<Rightarrow>
          broadcast_loop e channel_id message_data connections_to_broadcast w)"

text \<open>
  Connection events in the order they reach the two managers; a \<^verbatim>\<open>connect\<close> whose
  \<^verbatim>\<open>accept\<close> raises leaves the registry as it was.
\<close>

datatype registry_op =
    Connect WebSocket int
  | Disconnect int
  | RpConnect WebSocket string
  | RpDisconnect WebSocket string
  | RpBroadcast string GameMessage

fun apply_op :: "env \<Rightarrow> world \<Rightarrow> registry_op \<Rightarrow> world" where
  "apply_op e w (Connect websocket user_id) = snd (connect e websocket user_id w)"
| "apply_op e w (Disconnect user_id) = disconnect user_id w"
| "apply_op e w (RpConnect websocket channel_id) = snd (rp_connect e websocket channel_id w)"
| "apply_op e w (RpDisconnect websocket channel_id) = rp_disconnect websocket channel_id w"
| "apply_op e w (RpBroadcast channel_id message_data) = broadcast_to_channel e channel_id message_data w"

definition run_ops :: "env \<Rightarrow> registry_op list \<Rightarrow> world \<Rightarrow> world" where
  "run_ops e ops w = foldl (apply_op e) w ops"

subsection \<open>Strings\<close>

text \<open>
  Strings are taken over the code points 0 to 255. There \<^verbatim>\<open>str.isspace\<close> holds of
  9 to 13, 28 to 32, 133 and 160; \<^verbatim>\<open>str.lower\<close> moves A to Z and the accented capitals
  192 to 222 (not 215) up by 32; the pattern class \<^verbatim>\<open>\d\<close> is 0 to 9.
\<close>

definition isspace :: "char \<Rightarrow> bool" where
  "isspace c = (let n = (of_char c :: nat) in
      (9 \<le> n \<and> n \<le> 13) \<or> (28 \<le> n \<and> n \<le> 32) \<or> n = 133 \<or> n = 160)"

definition strip :: "string \<Rightarrow> string" where
  "strip s = rev (dropWhile isspace (rev (dropWhile isspace s)))"

definition lower_char :: "char \<Rightarrow> char" where
  "lower_char c = (let n = (of_char c :: nat) in
      if (65 \<le> n \<and> n \<le> 90) \<or> (192 \<le> n \<and> n \<le> 222 \<and> n \<noteq> 215)
      then char_of (n + 32) else c)"

definition lower :: "string \<Rightarrow> string" where
  "lower s = map lower_char s"

definition isdigit :: "char \<Rightarrow> bool" where
  "isdigit c = (let n = (of_char c :: nat) in 48 \<le> n \<and> n \<le> 57)"

text \<open>\<^verbatim>\<open>int(...)\<close> on a run of decimal digits.\<close>

definition int_of_digits :: "string \<Rightarrow> int" where
  "int_of_digits ds = foldl (\<lambda>a c. 10 * a + (int (of_char c) - 48)) 0 ds"

text \<open>\<^verbatim>\<open>str(...)\<close> of an integer.\<close>

fun str_nat :: "nat \<Rightarrow> string" where
  "str_nat n =
     (if n < 10 then [char_of (48 + n)]
      else str_nat (n div 10) @ [char_of (48 + n mod 10)])"

definition str_int :: "int \<Rightarrow> string" where
  "str_int i = (if i < 0 then CHR ''-'' # str_nat (nat (- i)) else str_nat (nat i))"

fun join :: "string \<Rightarrow> string list \<Rightarrow> string" where
  "join sep [] = []"
| "join sep [x] = x"
| "join sep (x # y # r) = x @ sep @ join sep (y # r)"

text \<open>\<^verbatim>\<open>s[:n] + ('...' if len(s) > n else '')\<close>\<close>

definition preview :: "nat \<Rightarrow> string \<Rightarrow> string" where
  "preview n s = take n s @ (if length s > n then ''...'' else [])"

subsection \<open>Dice notation (crud.py)\<close>

text \<open>In a pattern \<^verbatim>\<open>$\<close> matches at the end and before one final newline.\<close>

definition at_end :: "string \<Rightarrow> bool" where
  "at_end s = (s = [] \<or> s = [CHR 0x0A])"

text \<open>
  \<^verbatim>\<open>re.match(r"^(\d+)d(\d+)(?:([+-])(\d+))?$", s)\<close>: the groups 1, 2 and, when the
  optional part took part in the match, 3 and 4. No digit is \<^verbatim>\<open>d\<close>, a sign or a
  newline, so each greedy \<^verbatim>\<open>\d+\<close> takes the whole run of digits and backtracking finds
  nothing else.
\<close>

definition re_match_dice :: "string \<Rightarrow> (string \<times> string \<times> (char \<times> string) option) option" where
  "re_match_dice s =
     (let g1 = takeWhile isdigit s; r1 = dropWhile isdigit s in
      if g1 = [] then None else
      case r1 of
        [] \<Rightarrow> None
      | c # r2 \<Rightarrow>
          if c \<noteq> CHR ''d'' then None else
          let g2 = takeWhile isdigit r2; r3 = dropWhile isdigit r2 in
          if g2 = [] then None else
          if at_end r3 then Some (g1, g2, None) else
          case r3 of
            [] \<Rightarrow> None
          | sg # r4 \<Rightarrow>
              if sg \<noteq> CHR ''+'' \<and> sg \<noteq> CHR ''-'' then None else
              let g4 = takeWhile isdigit r4; r5 = dropWhile isdigit r4 in
              if g4 = [] then None else
              if at_end r5 then Some (g1, g2, Some (sg, g4)) else None)"

text \<open>
  \<^verbatim>\<open>random.randint(1, n)\<close>: the generator hands out a raw draw \<open>r\<close>, and the result is
  \<open>1 + r mod n\<close>, any value from 1 to \<open>n\<close> and no other. The draws of one call of the
  parser are \<open>rnd 0\<close>, \<open>rnd 1\<close>, ...
\<close>

definition randint1 :: "int \<Rightarrow> nat \<Rightarrow> int" where
  "randint1 n r = 1 + int r mod n"

record dice_roll =
  num_dice :: int
  num_sides :: int
  rolls :: "int list"
  total :: int

definition parse_dice_notation_for_rp :: "(nat \<Rightarrow> nat) \<Rightarrow> string \<Rightarrow> dice_roll option" where
  "parse_dice_notation_for_rp rnd notation =
     (case re_match_dice (lower (strip notation)) of
        None \<Rightarrow> None
      | Some (g1, g2, g34) \<Rightarrow>
          let nd = int_of_digits g1; ns = int_of_digits g2 in
          if nd \<le> 0 \<or> ns \<le> 0 \<or> nd > 100 then None
          else let rs = map (\<lambda>i. randint1 ns (rnd i)) [0..<nat nd] in
               Some \<lparr>num_dice = nd, num_sides = ns, rolls = rs, total = sum_list rs\<rparr>)"

subsection \<open>Role-play chat endpoints (routers/rp_chat.py)\<close>

definition TEST_CHANNEL_ID_FOR_GDM_RP :: string where
  "TEST_CHANNEL_ID_FOR_GDM_RP = ''gdm-rp-test-channel''"

definition PLACEHOLDER_GAME_ID_FOR_DB :: int where
  "PLACEHOLDER_GAME_ID_FOR_DB = 0"

text \<open>
  \<^verbatim>\<open>create_game_message_rp_style\<close>: insert, commit, then query the row by its key;
  \<^verbatim>\<open>first()\<close> is \<^verbatim>\<open>None\<close> when the query finds nothing.
\<close>

definition create_game_message_rp_style ::
  "env \<Rightarrow> int \<Rightarrow> int option \<Rightarrow> string \<Rightarrow> string \<Rightarrow> string \<Rightarrow> string option \<Rightarrow>
   string option \<Rightarrow> string option \<Rightarrow> world \<Rightarrow> GameMessage option \<times> world" where
  "create_game_message_rp_style e gid sender content senderName senderType avatar cid oid w =
     (let db_message = \<lparr>gm_id = next_id (map gm_id (game_messages (db w))),
                        gm_content = content, gm_timestamp = func_now e, game_id = gid,
                        gm_sender_id = sender, sender_display_name = Some senderName,
                        sender_role = Some senderType, sender_avatar_url = avatar,
                        character_id = cid, owner_user_id = oid\<rparr>;
          w1 = db_commit (w\<lparr>db := (db w)\<lparr>game_messages := game_messages (db w) @ [db_message]\<rparr>\<rparr>)
      in (find (\<lambda>m. gm_id m = gm_id db_message) (game_messages (db w1)), w1))"

definition roll_content :: "string \<Rightarrow> dice_roll \<Rightarrow> string" where
  "roll_content rollerName parsed_roll =
     rollerName @ '' rolls!! (d'' @ str_int (num_sides parsed_roll) @ '' x ''
       @ str_int (num_dice parsed_roll) @ '' = [''
       @ join '', '' (map str_int (rolls parsed_roll)) @ ''] --> ''
       @ str_int (total parsed_roll) @ '')''"

definition rp_dice_roll ::
  "env \<Rightarrow> (nat \<Rightarrow> nat) \<Rightarrow> string \<Rightarrow> string \<Rightarrow> string \<Rightarrow> world \<Rightarrow> (error + GameMessage) \<times> world" where
  "rp_dice_roll e rnd channel_id notation rollerName w =
     (if channel_id \<noteq> TEST_CHANNEL_ID_FOR_GDM_RP then (Inl (HTTPException 403), w)
      else case parse_dice_notation_for_rp rnd notation of
        None \<Rightarrow> (Inl (HTTPException 400), w)
      | Some parsed_roll \<Rightarrow>
          (case create_game_message_rp_style e PLACEHOLDER_GAME_ID_FOR_DB None
                  (roll_content rollerName parsed_roll) ''System'' ''system'' None None None w of
             (None, w1) \<Rightarrow> (Inl (HTTPException 500), w1)
           | (Some db_system_message, w1) \<Rightarrow>
               (Inr db_system_message,
                broadcast_to_channel e channel_id db_system_message w1)))"

subsection \<open>Persistence helpers (crud.py)\<close>

definition get_user_by_id :: "database \<Rightarrow> int \<Rightarrow> User option" where
  "get_user_by_id d user_id = find (\<lambda>u. u_id u = user_id) (users d)"

definition create_direct_message ::
  "env \<Rightarrow> string \<Rightarrow> int \<Rightarrow> int \<Rightarrow> world \<Rightarrow> DirectMessage option \<times> world" where
  "create_direct_message e content sid rid w =
     (let db_message = \<lparr>dm_id = next_id (map dm_id (direct_messages (db w))),
                        dm_content = content, dm_timestamp = func_now e,
                        sender_id = sid, receiver_id = rid, dm_is_read = False\<rparr>;
          w1 = db_commit (w\<lparr>db := (db w)\<lparr>direct_messages := direct_messages (db w) @ [db_message]\<rparr>\<rparr>)
      in (find (\<lambda>m. dm_id m = dm_id db_message) (direct_messages (db w1)), w1))"

definition create_notification ::
  "env \<Rightarrow> int \<Rightarrow> string \<Rightarrow> string \<Rightarrow> string option \<Rightarrow> world \<Rightarrow> Notification \<times> world" where
  "create_notification e uid ty content link w =
     (let db_notification = \<lparr>n_id = next_id (map n_id (notifications (db w))),
                             n_user_id = uid, n_type = ty, n_content = content, n_link = link,
                             is_read = False, emailed_in_digest = False,
                             n_timestamp = func_now e\<rparr>
      in (db_notification,
          db_commit (w\<lparr>db := (db w)\<lparr>notifications := notifications (db w) @ [db_notification]\<rparr>\<rparr>)))"

definition get_dm_notification_cooldown ::
  "int \<Rightarrow> int \<Rightarrow> world \<Rightarrow> DmNotificationCooldown option \<times> world" where
  "get_dm_notification_cooldown osid rid w =
     (find (\<lambda>c. original_sender_id c = osid \<and> cd_receiver_id c = rid)
           (dm_notification_cooldowns (db w)),
      w\<lparr>trace := trace w @ [CooldownRead osid rid]\<rparr>)"

text \<open>An attribute assignment on the row a query returned changes that row and no other.\<close>

fun update_first :: "('a \<Rightarrow> bool) \<Rightarrow> ('a \<Rightarrow> 'a) \<Rightarrow> 'a list \<Rightarrow> 'a list" where
  "update_first P f [] = []"
| "update_first P f (x # xs) = (if P x then f x # xs else x # update_first P f xs)"

text \<open>
  A new cooldown row takes \<^verbatim>\<open>last_email_sent_at\<close> from its \<^verbatim>\<open>server_default=func.now()\<close>.
\<close>

definition upsert_dm_notification_cooldown ::
  "env \<Rightarrow> int \<Rightarrow> int \<Rightarrow> world \<Rightarrow> world" where
  "upsert_dm_notification_cooldown e osid rid w =
     (case get_dm_notification_cooldown osid rid w of
        (Some cooldown_record, w1) \<Rightarrow>
          db_commit (w1\<lparr>db := (db w1)\<lparr>dm_notification_cooldowns :=
            update_first (\<lambda>c. original_sender_id c = osid \<and> cd_receiver_id c = rid)
              (\<lambda>c. c\<lparr>last_email_sent_at := Some (func_now e)\<rparr>)
              (dm_notification_cooldowns (db w1))\<rparr>\<rparr>)
      | (None, w1) \<Rightarrow>
          db_commit (w1\<lparr>db := (db w1)\<lparr>dm_notification_cooldowns :=
            dm_notification_cooldowns (db w1) @
              [\<lparr>cd_id = next_id (map cd_id (dm_notification_cooldowns (db w1))),
                original_sender_id = osid, cd_receiver_id = rid,
                last_email_sent_at = Some (func_now e)\<rparr>]\<rparr>\<rparr>))"

subsection \<open>Direct messages (routers/messages.py)\<close>

definition DM_EMAIL_COOLDOWN_MINUTES :: int where
  "DM_EMAIL_COOLDOWN_MINUTES = 15"

text \<open>\<^verbatim>\<open>user.nickname or user.username\<close>\<close>

definition display_name :: "User \<Rightarrow> string" where
  "display_name u =
     (case nickname u of None \<Rightarrow> username u | Some n \<Rightarrow> if n = [] then username u else n)"

text \<open>
  The cooldown decision of \<^verbatim>\<open>send_direct_message\<close>, the value of \<^verbatim>\<open>can_send_email\<close>
  after the \<^verbatim>\<open>if cooldown_check and cooldown_check.last_email_sent_at\<close> block.
\<close>

definition can_send_email :: "env \<Rightarrow> DmNotificationCooldown option \<Rightarrow> error + bool" where
  "can_send_email e cooldown_check =
     (case cooldown_check of
        None \<Rightarrow> Inr True
      | Some c \<Rightarrow>
          (case last_email_sent_at c of
             None \<Rightarrow> Inr True
           | Some t \<Rightarrow>
               (let last_sent_aware = replace_tzinfo_utc_if_naive t in
                case dt_less (datetime_now_utc e)
                       (dt_add last_sent_aware (timedelta_minutes DM_EMAIL_COOLDOWN_MINUTES)) of
                  Inl err \<Rightarrow> Inl err
                | Inr b \<Rightarrow> Inr (\<not> b))))"

definition dm_email_task :: "env \<Rightarrow> User \<Rightarrow> User \<Rightarrow> string \<Rightarrow> email_task" where
  "dm_email_task e current_user receiver_user content =
     \<lparr>subject = ''New Direct Message from '' @ display_name current_user @ '' on Haven'',
      recipient_email = email receiver_user,
      body_data =
        [(''recipient_name'', BStr (display_name receiver_user)),
         (''sender_name'', BStr (display_name current_user)),
         (''message_preview'', BStr (preview 100 content)),
         (''dm_link'', BStr ((case frontend_url e of None \<Rightarrow> ''http://localhost:3000'' | Some u \<Rightarrow> u)
                             @ ''/dm?targetUser='' @ username current_user)),
         (''current_year'', BInt (current_year e))],
      template_name = ''new_dm_notification.html''\<rparr>"

text \<open>Lines 129 to 167: the e-mail fallback with its cooldown.\<close>

definition dm_email_fallback :: "env \<Rightarrow> User \<Rightarrow> User \<Rightarrow> string \<Rightarrow> world \<Rightarrow> (error + unit) \<times> world" where
  "dm_email_fallback e current_user receiver_user content w =
     (if email_notifications_enabled receiver_user \<and> email receiver_user \<noteq> []
      then
        if u_id receiver_user \<in> dom (manager w) then (Inr (), w)
        else
          (case get_dm_notification_cooldown (u_id current_user) (u_id receiver_user) w of
             (cooldown_check, w1) \<Rightarrow>
               (case can_send_email e cooldown_check of
                  Inl err \<Rightarrow> (Inl err, w1)
                | Inr False \<Rightarrow> (Inr (), w1)
                | Inr True \<Rightarrow>
                    (Inr (),
                     upsert_dm_notification_cooldown e (u_id current_user) (u_id receiver_user)
                       (w1\<lparr>background_tasks := background_tasks w1 @
                             [dm_email_task e current_user receiver_user content]\<rparr>))))
      else (Inr (), w))"

text \<open>
  \<^verbatim>\<open>send_direct_message\<close>. \<^verbatim>\<open>DirectMessage.from_orm\<close> of a missing row raises; it is
  given as \<^verbatim>\<open>TypeError\<close>.
\<close>

definition send_direct_message ::
  "env \<Rightarrow> int \<Rightarrow> string \<Rightarrow> User \<Rightarrow> world \<Rightarrow> (error + DirectMessage) \<times> world" where
  "send_direct_message e receiver_user_id content current_user w =
     (if u_id current_user = receiver_user_id then (Inl (HTTPException 400), w)
      else case get_user_by_id (db w) receiver_user_id of
        None \<Rightarrow> (Inl (HTTPException 404), w)
      | Some receiver_user \<Rightarrow>
          (case create_direct_message e content (u_id current_user) receiver_user_id w of
             (None, w1) \<Rightarrow> (Inl TypeError, w1)
           | (Some new_dm_db, w1) \<Rightarrow>
               (let notification_content =
                      ''New message from '' @ display_name current_user @ '': '' @ preview 50 content;
                    w2 = snd (create_notification e receiver_user_id ''new_dm'' notification_content
                               (Some (''/dm?targetUser='' @ username current_user)) w1)
                in case dm_email_fallback e current_user receiver_user content w2 of
                     (Inl err, w3) \<Rightarrow> (Inl err, w3)
                   | (Inr u, w3) \<Rightarrow>
                       (case send_personal_message_json e new_dm_db receiver_user_id w3 of
                          (Inl err, w4) \<Rightarrow> (Inl err, w4)
                        | (Inr u', w4) \<Rightarrow> (Inr new_dm_db, w4)))))"

subsection \<open>Outbound mail (utils/email_utils.py)\<close>

text \<open>
  \<^verbatim>\<open>send_email_notification\<close> raises \<^verbatim>\<open>RuntimeError\<close> when the mailer was never
  initialised. It then builds the \<^verbatim>\<open>MessageSchema\<close>, outside its \<^verbatim>\<open>try\<close>: a recipient
  that is no valid address raises \<^verbatim>\<open>ValidationError\<close>. An exception of
  \<^verbatim>\<open>fm_instance.send_message\<close> is caught and printed, so from there the function
  returns normally whether the message went out or not.
\<close>

definition send_email_notification :: "env \<Rightarrow> email_task \<Rightarrow> world \<Rightarrow> (error + unit) \<times> world" where
  "send_email_notification e task w =
     (if \<not> fm_instance e then (Inl RuntimeError, w)
      else if \<not> valid_email e (recipient_email task) then (Inl ValidationError, w)
      else (Inr (), w\<lparr>trace := trace w @ [SendMessage task (smtp_ok e (recipient_email task))]\<rparr>))"

subsection \<open>Digest scheduler (routers/tasks.py)\<close>

definition DIGEST_PERIOD_HOURS :: int where
  "DIGEST_PERIOD_HOURS = 24"

definition DIGEST_NOTIFICATION_TYPES :: "string list" where
  "DIGEST_NOTIFICATION_TYPES =
     [''new_game_post'', ''game_updated'', ''player_joined_your_game'', ''application_to_your_game'']"

definition EXCLUDED_FROM_DIGEST_TYPES :: "string list" where
  "EXCLUDED_FROM_DIGEST_TYPES = [''new_dm'']"

text \<open>
  \<^verbatim>\<open>get_notifications_for_digest\<close>: the filters are applied when their argument is
  truthy; the database compares the timestamps as instants and orders by them.
\<close>

definition get_notifications_for_digest ::
  "int \<Rightarrow> datetime option \<Rightarrow> string list \<Rightarrow> string list \<Rightarrow> world \<Rightarrow> Notification list \<times> world" where
  "get_notifications_for_digest uid since excluded_types included_types w =
     (sort_key (\<lambda>n. utc_instant (n_timestamp n))
        (filter (\<lambda>n. n_user_id n = uid \<and> \<not> emailed_in_digest n
                  \<and> (excluded_types = [] \<or> n_type n \<notin> set excluded_types)
                  \<and> (included_types = [] \<or> n_type n \<in> set included_types)
                  \<and> (case since of None \<Rightarrow> True
                      | Some t \<Rightarrow> utc_instant t < utc_instant (n_timestamp n)))
           (notifications (db w))),
      w\<lparr>trace := trace w @ [DigestFetch uid]\<rparr>)"

definition mark_notifications_as_emailed_in_digest :: "int list \<Rightarrow> world \<Rightarrow> nat \<times> world" where
  "mark_notifications_as_emailed_in_digest notification_ids w =
     (if notification_ids = [] then (0, w)
      else (length (filter (\<lambda>n. n_id n \<in> set notification_ids) (notifications (db w))),
            db_commit (w\<lparr>db := (db w)\<lparr>notifications :=
              map (\<lambda>n. if n_id n \<in> set notification_ids then n\<lparr>emailed_in_digest := True\<rparr> else n)
                  (notifications (db w))\<rparr>\<rparr>)))"

definition update_user_last_digest_sent_time :: "env \<Rightarrow> int \<Rightarrow> world \<Rightarrow> world" where
  "update_user_last_digest_sent_time e uid w =
     (case get_user_by_id (db w) uid of
        None \<Rightarrow> w
      | Some user \<Rightarrow>
          db_commit (w\<lparr>db := (db w)\<lparr>users :=
            update_first (\<lambda>u. u_id u = uid) (\<lambda>u. u\<lparr>last_digest_sent_at := Some (func_now e)\<rparr>)
              (users (db w))\<rparr>\<rparr>))"

text \<open>
  \<^verbatim>\<open>_prepare_notification_data_for_email\<close> dumps the notification, adds the preview and
  then, for the four game types, reads \<^verbatim>\<open>notification.related_entity_id\<close>. The
  \<^verbatim>\<open>Notification\<close> model has no such attribute, so the read raises \<^verbatim>\<open>AttributeError\<close>.
  The two tests that follow are on types of that same list and are never reached with them.
\<close>

definition content_preview :: "string \<Rightarrow> string" where
  "content_preview c = (if length c > 70 then take 70 c @ ''...'' else c)"

definition prepare_notification_data_for_email ::
  "Notification \<Rightarrow> error + (string \<times> field_value) list" where
  "prepare_notification_data_for_email notification =
     (let data = [(''type'', FStr (n_type notification)),
                  (''content'', FStr (n_content notification)),
                  (''link'', (case n_link notification of None \<Rightarrow> FNone | Some l \<Rightarrow> FStr l)),
                  (''id'', FInt (n_id notification)),
                  (''user_id'', FInt (n_user_id notification)),
                  (''is_read'', FBool (is_read notification)),
                  (''timestamp'', FTime (n_timestamp notification)),
                  (''content_preview'', FStr (content_preview (n_content notification)))]
      in if n_type notification \<in> set [''new_game_post'', ''game_updated'',
                                        ''player_joined_your_game'', ''application_to_your_game'']
         then Inl AttributeError
         else Inr data)"

text \<open>
  \<^verbatim>\<open>_group_notifications_for_digest\<close>: a dict with one (empty) list per digest type, in
  the order of \<open>DIGEST_NOTIFICATION_TYPES\<close>, filled by the loop.
\<close>

fun group_loop ::
  "Notification list \<Rightarrow> (string \<times> (string \<times> field_value) list list) list \<Rightarrow>
   error + (string \<times> (string \<times> field_value) list list) list" where
  "group_loop [] grouped = Inr grouped"
| "group_loop (notif # rest) grouped =
     (if n_type notif \<in> fst ` set grouped
      then (case prepare_notification_data_for_email notif of
              Inl err \<Rightarrow> Inl err
            | Inr prepared_data \<Rightarrow>
                group_loop rest
                  (map (\<lambda>(k, v). if k = n_type notif then (k, v @ [prepared_data]) else (k, v))
                       grouped))
      else group_loop rest grouped)"

definition group_notifications_for_digest ::
  "Notification list \<Rightarrow> error + (string \<times> (string \<times> field_value) list list) list" where
  "group_notifications_for_digest ns =
     group_loop ns (map (\<lambda>notif_type. (notif_type, [])) DIGEST_NOTIFICATION_TYPES)"

definition digest_email_task ::
  "env \<Rightarrow> User \<Rightarrow> datetime \<Rightarrow> (string \<times> (string \<times> field_value) list list) list \<Rightarrow> email_task" where
  "digest_email_task e user since_time grouped_notifications =
     \<lparr>subject = ''Your Haven Activity Digest'',
      recipient_email = email user,
      body_data =
        [(''recipient_name'', BStr (display_name user)),
         (''digest_period_name'', BSince since_time),
         (''settings_link'', BStr ((case frontend_url e of None \<Rightarrow> ''http://localhost:3000'' | Some u \<Rightarrow> u)
                                    @ ''/settings'')),
         (''current_year'', BInt (current_year e))]
        @ map (\<lambda>(k, v). (k, BItems v)) grouped_notifications,
      template_name = ''digest_notification.html''\<rparr>"

text \<open>
  The \<^verbatim>\<open>try\<close> statement of \<^verbatim>\<open>_send_digests_for_user\<close> (lines 114 to 134): send, mark,
  update, commit; any exception is caught, the session rolled back, and the function
  returns.
\<close>

definition send_digest_and_commit ::
  "env \<Rightarrow> User \<Rightarrow> Notification list \<Rightarrow> email_task \<Rightarrow> world \<Rightarrow> world" where
  "send_digest_and_commit e user notifications_to_send task w =
     (case send_email_notification e task w of
        (Inl err, w1) \<Rightarrow> db_rollback w1
      | (Inr u, w1) \<Rightarrow>
          db_commit
            (update_user_last_digest_sent_time e (u_id user)
               (snd (mark_notifications_as_emailed_in_digest (map n_id notifications_to_send) w1))))"

text \<open>
  \<^verbatim>\<open>_send_digests_for_user\<close>, here without the leading underscore, as are the other
  private functions of the module. Fetching and grouping come before the \<^verbatim>\<open>try\<close>
  statement, so what they raise leaves the function.
\<close>

definition send_digests_for_user :: "env \<Rightarrow> User \<Rightarrow> world \<Rightarrow> (error + unit) \<times> world" where
  "send_digests_for_user e user w =
     (let since_time =
            (case last_digest_sent_at user of
               Some t \<Rightarrow> t
             | None \<Rightarrow> dt_add (datetime_now_utc e) (- timedelta_hours DIGEST_PERIOD_HOURS))
      in case get_notifications_for_digest (u_id user) (Some since_time)
                EXCLUDED_FROM_DIGEST_TYPES DIGEST_NOTIFICATION_TYPES w of
           (notifications_to_send, w1) \<Rightarrow>
             if notifications_to_send = [] then (Inr (), w1)
             else
               (case group_notifications_for_digest notifications_to_send of
                  Inl err \<Rightarrow> (Inl err, w1)
                | Inr grouped_notifications \<Rightarrow>
                    if \<not> list_ex (\<lambda>(k, notifs). length notifs > 0) grouped_notifications
                    then (Inr (), w1)
                    else (Inr (),
                          send_digest_and_commit e user notifications_to_send
                            (digest_email_task e user since_time grouped_notifications) w1)))"

text \<open>
  The test of lines 148 and 149: \<^verbatim>\<open>True\<close> when the user is skipped. The comparison is
  of an aware \<^verbatim>\<open>now\<close> with the stored value, and raises on a naive one.
\<close>

definition digest_not_yet_time :: "env \<Rightarrow> User \<Rightarrow> error + bool" where
  "digest_not_yet_time e user =
     (case last_digest_sent_at user of
        None \<Rightarrow> Inr False
      | Some t \<Rightarrow> dt_less (datetime_now_utc e) (dt_add t (timedelta_hours (DIGEST_PERIOD_HOURS - 1))))"

fun digest_loop :: "env \<Rightarrow> User list \<Rightarrow> world \<Rightarrow> (error + unit) \<times> world" where
  "digest_loop e [] w = (Inr (), w)"
| "digest_loop e (user # rest) w =
     (case digest_not_yet_time e user of
        Inl err \<Rightarrow> (Inl err, w)
      | Inr True \<Rightarrow> digest_loop e rest w
      | Inr False \<Rightarrow>
          (case send_digests_for_user e user w of
             (Inl err, w1) \<Rightarrow> (Inl err, w1)
           | (Inr u, w1) \<Rightarrow> digest_loop e rest w1))"

text \<open>
  \<^verbatim>\<open>_scheduled_digest_sender_task\<close>: the users with e-mail notifications enabled (the
  \<^verbatim>\<open>email\<close> column is declared non-null, so \<^verbatim>\<open>email != None\<close> holds of every row), in
  table order; the \<^verbatim>\<open>for\<close> loop has no handler of its own.
\<close>

definition scheduled_digest_sender_task :: "env \<Rightarrow> world \<Rightarrow> (error + unit) \<times> world" where
  "scheduled_digest_sender_task e w =
     digest_loop e (filter (\<lambda>u. email_notifications_enabled u) (users (db w))) w"

text \<open>
  The rule of the specification, \<open>now < last_digest_sent_at + digest_period - buffer\<close>,
  with the period of 24 hours and the buffer of one hour, on instants; a user who never
  had a digest is not skipped. And the stamps the loop can compare with an aware
  \<^verbatim>\<open>now\<close>: unset or aware.
\<close>

definition skip_rule :: "env \<Rightarrow> User \<Rightarrow> bool" where
  "skip_rule e u =
     (case last_digest_sent_at u of
        None \<Rightarrow> False
      | Some t \<Rightarrow> now_utc e < utc_instant t + timedelta_hours DIGEST_PERIOD_HOURS - timedelta_hours 1)"

definition stamp_usable :: "User \<Rightarrow> bool" where
  "stamp_usable u =
     (case last_digest_sent_at u of
        None \<Rightarrow> True
      | Some (Aware t off) \<Rightarrow> True
      | Some (Naive t) \<Rightarrow> False)"

subsection \<open>The channel invariant and concrete inputs\<close>

definition no_empty_channel :: "world \<Rightarrow> bool" where
  "no_empty_channel w = (\<forall>ch. rp_chat_manager w ch \<noteq> Some [])"

text \<open>
  An environment in which every socket accepts, writes to the sockets 2 and 7 fail, the
  clock stands at hour 1000, the database keeps time zones, and the mailer is initialised
  and every address is well formed, but the mail server refuses every message.
\<close>

definition example_env :: env where
  "example_env =
     \<lparr>accept_ok = (\<lambda>c. True), send_ok = (\<lambda>c. c \<noteq> 2 \<and> c \<noteq> 7),
      now_utc = timedelta_hours 1000, current_year = 2025, db_tz_aware = True,
      fm_instance = True, valid_email = (\<lambda>a. True), smtp_ok = (\<lambda>a. False),
      frontend_url = None\<rparr>"

definition empty_db :: database where
  "empty_db = \<lparr>users = [], game_messages = [], direct_messages = [], notifications = [],
               dm_notification_cooldowns = []\<rparr>"

definition empty_world :: world where
  "empty_world = \<lparr>manager = Map.empty, rp_chat_manager = Map.empty, db = empty_db,
                  db_committed = empty_db, wire = [], background_tasks = [], trace = []\<rparr>"

definition alice :: User where
  "alice = \<lparr>u_id = 1, username = ''alice'', email = ''alice@example.org'', nickname = None,
            email_notifications_enabled = True, last_digest_sent_at = None\<rparr>"

definition bob :: User where
  "bob = \<lparr>u_id = 2, username = ''bob'', email = ''bob@example.org'', nickname = None,
          email_notifications_enabled = True, last_digest_sent_at = None\<rparr>"

definition example_message :: GameMessage where
  "example_message =
     \<lparr>gm_id = 1, gm_content = ''hello'', gm_timestamp = Aware 0 0, game_id = 0,
      gm_sender_id = None, sender_display_name = Some ''System'', sender_role = Some ''system'',
      sender_avatar_url = None, character_id = None, owner_user_id = None\<rparr>"

definition example_dm :: DirectMessage where
  "example_dm = \<lparr>dm_id = 1, dm_content = ''hi'', dm_timestamp = Aware 0 0, sender_id = 1,
                 receiver_id = 2, dm_is_read = False\<rparr>"

text \<open>A pending notification of user \<open>uid\<close>, of a digest type, created at hour \<open>h\<close>.\<close>

definition game_update :: "int \<Rightarrow> int \<Rightarrow> int \<Rightarrow> Notification" where
  "game_update i uid h =
     \<lparr>n_id = i, n_user_id = uid, n_type = ''game_updated'', n_content = ''The game changed'',
      n_link = None, is_read = False, emailed_in_digest = False,
      n_timestamp = Aware (timedelta_hours h) 0\<rparr>"

text \<open>A world whose committed database holds the given users and notifications.\<close>

definition world_with :: "User list \<Rightarrow> Notification list \<Rightarrow> world" where
  "world_with us ns =
     empty_world\<lparr>db := empty_db\<lparr>users := us, notifications := ns\<rparr>,
                 db_committed := empty_db\<lparr>users := us, notifications := ns\<rparr>\<rparr>"

text \<open>A channel with the sockets 1, 2 and 3; a user registry with user 1 on socket 4 and user 2 on socket 7.\<close>

definition rp_world :: world where
  "rp_world = empty_world\<lparr>rp_chat_manager := [TEST_CHANNEL_ID_FOR_GDM_RP \<mapsto> [1, 2, 3]]\<rparr>"

definition dm_world :: world where
  "dm_world = (world_with [alice, bob] [])\<lparr>manager := [1 \<mapsto> 4, 2 \<mapsto> 7]\<rparr>"

text \<open>
  The world in which the e-mail fallback of \<open>send_direct_message\<close> runs: the message and
  the notification are stored.
\<close>

definition after_persist :: "env \<Rightarrow> int \<Rightarrow> string \<Rightarrow> User \<Rightarrow> world \<Rightarrow> world" where
  "after_persist e receiver_user_id content current_user w =
     snd (create_notification e receiver_user_id ''new_dm''
            (''New message from '' @ display_name current_user @ '': '' @ preview 50 content)
            (Some (''/dm?targetUser='' @ username current_user))
            (snd (create_direct_message e content (u_id current_user) receiver_user_id w)))"

text \<open>
  Bob is online on socket 8, and Alice's last e-mail to him went out five minutes ago.
\<close>

definition cooled_db :: database where
  "cooled_db =
     empty_db\<lparr>users := [alice, bob],
       dm_notification_cooldowns :=
         [\<lparr>cd_id = 1, original_sender_id = 1, cd_receiver_id = 2,
           last_email_sent_at = Some (Aware (timedelta_hours 1000 - timedelta_minutes 5) 0)\<rparr>]\<rparr>"

definition cooled_world :: world where
  "cooled_world = empty_world\<lparr>manager := [2 \<mapsto> 8], db := cooled_db, db_committed := cooled_db\<rparr>"


text \<open>
  Alice with her last digest sent at hour \<open>h\<close>; two pending game updates of hers, created
  at the hours 990 and 995; and a digest e-mail for her.
\<close>

definition alice_at :: "int \<Rightarrow> User" where
  "alice_at h = alice\<lparr>last_digest_sent_at := Some (Aware (timedelta_hours h) 0)\<rparr>"

definition two_updates :: "Notification list" where
  "two_updates = [game_update 1 1 990, game_update 2 1 995]"

definition example_digest_task :: email_task where
  "example_digest_task =
     digest_email_task example_env alice (Aware (timedelta_hours 976) 0)
       [(''game_updated'', [[(''content'', FStr ''The game changed'')]])]"

section \<open>Properties\<close>

subsection \<open>Broadcast to a channel\<close>

lemma rp_disconnect_other:
  "ch' \<noteq> ch \<Longrightarrow> rp_chat_manager (rp_disconnect c ch w) ch' = rp_chat_manager w ch'"
  by (simp add: rp_disconnect_def Let_def split: option.splits)

lemma rp_disconnect_wire: "wire (rp_disconnect c ch w) = wire w"
  by (simp add: rp_disconnect_def Let_def split: option.splits)

lemma broadcast_loop_wire:
  "wire (broadcast_loop e ch m cs w) = wire w @ map (\<lambda>c. (c, RpFrame m)) (filter (send_ok e) cs)"
  by (induction cs arbitrary: w) (simp_all add: rp_disconnect_wire)

lemma broadcast_loop_other:
  "ch' \<noteq> ch \<Longrightarrow> rp_chat_manager (broadcast_loop e ch m cs w) ch' = rp_chat_manager w ch'"
  by (induction cs arbitrary: w) (simp_all add: rp_disconnect_other)

lemma broadcast_loop_registry:
  assumes "\<forall>x\<in>set pre. send_ok e x"
    and "rp_chat_manager w ch = (if pre @ cs = [] then None else Some (pre @ cs))"
  shows "rp_chat_manager (broadcast_loop e ch m cs w) ch =
          (if pre @ filter (send_ok e) cs = [] then None else Some (pre @ filter (send_ok e) cs))"
  using assms
proof (induction cs arbitrary: w pre)
  case Nil
  then show ?case by simp
next
  case (Cons c cs)
  show ?case
  proof (cases "send_ok e c")
    case True
    let ?w = "w\<lparr>wire := wire w @ [(c, RpFrame m)]\<rparr>"
    have a: "\<forall>x\<in>set (pre @ [c]). send_ok e x" using Cons.prems(1) True by simp
    have b: "rp_chat_manager ?w ch = (if (pre @ [c]) @ cs = [] then None else Some ((pre @ [c]) @ cs))"
      using Cons.prems(2) by simp
    from Cons.IH [OF a b] True show ?thesis by simp
  next
    case False
    then have notin: "c \<notin> set pre" using Cons.prems(1) by blast
    have reg: "rp_chat_manager w ch = Some (pre @ c # cs)" using Cons.prems(2) by simp
    have rem: "remove1 c (pre @ c # cs) = pre @ cs" using notin by (simp add: remove1_append)
    have b: "rp_chat_manager (rp_disconnect c ch w) ch = (if pre @ cs = [] then None else Some (pre @ cs))"
      using reg rem by (simp add: rp_disconnect_def Let_def)
    from Cons.IH [OF Cons.prems(1) b] False show ?thesis by simp
  qed
qed

lemma filter_only_bad:
  assumes "\<not> P bad" "\<forall>c\<in>set xs. c \<noteq> bad \<longrightarrow> P c"
  shows "filter P xs = filter (\<lambda>c. c \<noteq> bad) xs"
  using assms by (induction xs) auto

text \<open>
  C6. A broadcast to a channel in which exactly one registered connection \<open>bad\<close> raises
  on write puts the frame on every other connection of the channel, in their order, and
  leaves the channel's list without \<open>bad\<close> (the entry is gone when nothing is left);
  other channels are untouched. With \<open>N\<close> distinct connections that is \<open>N - 1\<close>
  deliveries and the removal of exactly the failing one. \<open>broadcast_to_channel\<close> has no
  error result: the \<^verbatim>\<open>except\<close> clause keeps the failure from the caller.
\<close>

theorem broadcast_one_failure:
  assumes "rp_chat_manager w ch = Some conns"
    and "bad \<in> set conns"
    and "\<not> send_ok e bad"
    and "\<forall>c\<in>set conns. c \<noteq> bad \<longrightarrow> send_ok e c"
  shows "wire (broadcast_to_channel e ch m w) =
           wire w @ map (\<lambda>c. (c, RpFrame m)) (filter (\<lambda>c. c \<noteq> bad) conns)
       \<and> rp_chat_manager (broadcast_to_channel e ch m w) ch =
           (if filter (\<lambda>c. c \<noteq> bad) conns = [] then None
            else Some (filter (\<lambda>c. c \<noteq> bad) conns))
       \<and> (\<forall>ch'. ch' \<noteq> ch \<longrightarrow>
            rp_chat_manager (broadcast_to_channel e ch m w) ch' = rp_chat_manager w ch')
       \<and> (distinct conns \<longrightarrow>
            filter (\<lambda>c. c \<noteq> bad) conns = remove1 bad conns
          \<and> length (filter (\<lambda>c. c \<noteq> bad) conns) = length conns - 1)"
proof -
  have f: "filter (send_ok e) conns = filter (\<lambda>c. c \<noteq> bad) conns"
    using assms(3,4) by (rule filter_only_bad)
  have ne: "conns \<noteq> []" using assms(2) by auto
  have r0: "rp_chat_manager w ch = (if [] @ conns = [] then None else Some ([] @ conns))"
    using assms(1) ne by simp
  have r: "rp_chat_manager (broadcast_loop e ch m conns w) ch =
          (if [] @ filter (send_ok e) conns = [] then None else Some ([] @ filter (send_ok e) conns))"
    by (rule broadcast_loop_registry [OF _ r0]) simp
  have d: "distinct conns \<Longrightarrow> filter (\<lambda>c. c \<noteq> bad) conns = remove1 bad conns"
    by (induction conns) (auto simp: remove1_idem)
  have l: "distinct conns \<Longrightarrow> length (remove1 bad conns) = length conns - 1"
    using assms(2) by (simp add: length_remove1)
  show ?thesis
    using assms(1) f r d l
    by (simp add: broadcast_to_channel_def broadcast_loop_wire broadcast_loop_other)
qed

theorem broadcast_one_failure_witness:
  "rp_chat_manager rp_world TEST_CHANNEL_ID_FOR_GDM_RP = Some [1, 2, 3]
   \<and> \<not> send_ok example_env 2 \<and> send_ok example_env 1 \<and> send_ok example_env 3
   \<and> wire (broadcast_to_channel example_env TEST_CHANNEL_ID_FOR_GDM_RP example_message rp_world)
       = [(1, RpFrame example_message), (3, RpFrame example_message)]
   \<and> rp_chat_manager
        (broadcast_to_channel example_env TEST_CHANNEL_ID_FOR_GDM_RP example_message rp_world)
        TEST_CHANNEL_ID_FOR_GDM_RP = Some [1, 3]
   \<and> distinct [1, 2, 3::nat]
   \<and> length (filter (\<lambda>c. c \<noteq> 2) [1, 2, 3::nat]) = length [1, 2, 3::nat] - 1"
proof -
  have a: "rp_chat_manager rp_world TEST_CHANNEL_ID_FOR_GDM_RP = Some [1, 2, 3]"
    by (simp add: rp_world_def)
  have b: "(2::nat) \<in> set [1, 2, 3]" by simp
  have c: "\<not> send_ok example_env 2" by (simp add: example_env_def)
  have d: "\<forall>c\<in>set [1, 2, 3::nat]. c \<noteq> 2 \<longrightarrow> send_ok example_env c"
    by (simp add: example_env_def)
  have w: "wire rp_world = []" by (simp add: rp_world_def empty_world_def)
  show ?thesis
    using broadcast_one_failure [OF a b c d, of example_message] a w
    by (simp add: example_env_def)
qed

subsection \<open>Registry invariants\<close>

lemma rp_disconnect_inv: "no_empty_channel w \<Longrightarrow> no_empty_channel (rp_disconnect c ch w)"
  by (auto simp: no_empty_channel_def rp_disconnect_def Let_def split: option.splits)

lemma rp_connect_inv: "no_empty_channel w \<Longrightarrow> no_empty_channel (snd (rp_connect e c ch w))"
  by (auto simp: no_empty_channel_def rp_connect_def)

lemma connect_inv: "no_empty_channel w \<Longrightarrow> no_empty_channel (snd (connect e c u w))"
  by (auto simp: no_empty_channel_def connect_def)

lemma disconnect_inv: "no_empty_channel w \<Longrightarrow> no_empty_channel (disconnect u w)"
  by (auto simp: no_empty_channel_def disconnect_def)

lemma broadcast_loop_inv:
  "no_empty_channel w \<Longrightarrow> no_empty_channel (broadcast_loop e ch m cs w)"
proof (induction cs arbitrary: w)
  case Nil
  then show ?case by simp
next
  case (Cons c cs)
  have "no_empty_channel (if send_ok e c then w\<lparr>wire := wire w @ [(c, RpFrame m)]\<rparr>
                          else rp_disconnect c ch w)"
    using Cons.prems by (simp add: rp_disconnect_inv) (simp add: no_empty_channel_def)
  then show ?case using Cons.IH by simp
qed

lemma broadcast_inv: "no_empty_channel w \<Longrightarrow> no_empty_channel (broadcast_to_channel e ch m w)"
  by (simp add: broadcast_to_channel_def broadcast_loop_inv split: option.splits)

lemma apply_op_inv: "no_empty_channel w \<Longrightarrow> no_empty_channel (apply_op e w op)"
  by (cases op) (simp_all add: rp_disconnect_inv rp_connect_inv connect_inv disconnect_inv broadcast_inv)

lemma run_ops_inv: "no_empty_channel w \<Longrightarrow> no_empty_channel (run_ops e ops w)"
  unfolding run_ops_def
  by (induction ops arbitrary: w) (simp_all add: apply_op_inv)

text \<open>
  What holds of the registries. Start with an empty channel registry and run any sequence
  of connects, disconnects and broadcasts on the two managers. Then no channel is
  registered with an empty list; a user id has at most one connection; a connect that is
  accepted makes its socket the one registered for the user id, whatever was there
  before; and a disconnect of a user id without an entry, or of a socket that is not in
  the channel's list, changes nothing and raises nothing.
\<close>

lemma registry_invariants:
  assumes "rp_chat_manager w0 = Map.empty"
  shows "(\<forall>ch. rp_chat_manager (run_ops e ops w0) ch \<noteq> Some [])
       \<and> (\<forall>uid. card {c. manager (run_ops e ops w0) uid = Some c} \<le> 1)
       \<and> (\<forall>c uid. accept_ok e c \<longrightarrow>
             manager (run_ops e (ops @ [Connect c uid]) w0) uid = Some c)
       \<and> (\<forall>uid. manager (run_ops e ops w0) uid = None \<longrightarrow>
             run_ops e (ops @ [Disconnect uid]) w0 = run_ops e ops w0)
       \<and> (\<forall>c ch. (\<forall>l. rp_chat_manager (run_ops e ops w0) ch = Some l \<longrightarrow> c \<notin> set l) \<longrightarrow>
             run_ops e (ops @ [RpDisconnect c ch]) w0 = run_ops e ops w0)"
proof -
  have "no_empty_channel w0" using assms by (simp add: no_empty_channel_def)
  then have 1: "\<forall>ch. rp_chat_manager (run_ops e ops w0) ch \<noteq> Some []"
    using run_ops_inv [of w0 e ops] by (simp add: no_empty_channel_def)
  have 2: "\<forall>uid. card {c. manager (run_ops e ops w0) uid = Some c} \<le> 1"
  proof
    fix uid
    show "card {c. manager (run_ops e ops w0) uid = Some c} \<le> 1"
      by (cases "manager (run_ops e ops w0) uid") simp_all
  qed
  have 3: "\<forall>c uid. accept_ok e c \<longrightarrow> manager (run_ops e (ops @ [Connect c uid]) w0) uid = Some c"
    by (simp add: run_ops_def connect_def)
  have 4: "\<forall>uid. manager (run_ops e ops w0) uid = None \<longrightarrow>
             run_ops e (ops @ [Disconnect uid]) w0 = run_ops e ops w0"
    by (auto simp: run_ops_def disconnect_def)
  have 5: "\<forall>c ch. (\<forall>l. rp_chat_manager (run_ops e ops w0) ch = Some l \<longrightarrow> c \<notin> set l) \<longrightarrow>
             run_ops e (ops @ [RpDisconnect c ch]) w0 = run_ops e ops w0"
    by (auto simp: run_ops_def rp_disconnect_def split: option.splits)
  from 1 2 3 4 5 show ?thesis by blast
qed

lemma registry_invariants_example:
  "rp_chat_manager empty_world = Map.empty
   \<and> accept_ok example_env 5
   \<and> rp_chat_manager
        (run_ops example_env [RpConnect 1 ''room'', Connect 4 9, RpDisconnect 1 ''room''] empty_world)
        ''room'' \<noteq> Some []
   \<and> manager
        (run_ops example_env
           ([RpConnect 1 ''room'', Connect 4 9, RpDisconnect 1 ''room''] @ [Connect 5 9]) empty_world)
        9 = Some 5
   \<and> manager
        (run_ops example_env [RpConnect 1 ''room'', Connect 4 9, RpDisconnect 1 ''room''] empty_world)
        3 = None
   \<and> run_ops example_env
        ([RpConnect 1 ''room'', Connect 4 9, RpDisconnect 1 ''room''] @ [Disconnect 3]) empty_world
      = run_ops example_env [RpConnect 1 ''room'', Connect 4 9, RpDisconnect 1 ''room''] empty_world
   \<and> run_ops example_env
        ([RpConnect 1 ''room'', Connect 4 9, RpDisconnect 1 ''room''] @ [RpDisconnect 1 ''room''])
        empty_world
      = run_ops example_env [RpConnect 1 ''room'', Connect 4 9, RpDisconnect 1 ''room''] empty_world"
proof -
  let ?ops = "[RpConnect 1 ''room'', Connect 4 9, RpDisconnect 1 ''room'']"
  have h: "rp_chat_manager empty_world = Map.empty" by (simp add: empty_world_def)
  have acc: "accept_ok example_env 5" by (simp add: example_env_def)
  have m3: "manager (run_ops example_env ?ops empty_world) 3 = None"
    by (simp add: run_ops_def connect_def rp_connect_def rp_disconnect_def example_env_def
          empty_world_def)
  have r: "\<forall>l. rp_chat_manager (run_ops example_env ?ops empty_world) ''room'' = Some l
             \<longrightarrow> 1 \<notin> set l"
    by (simp add: run_ops_def connect_def rp_connect_def rp_disconnect_def example_env_def
          empty_world_def)
  from registry_invariants [OF h, of example_env ?ops] h acc m3 r
  show ?thesis by blast
qed

text \<open>
  C7, at a user who reconnects. User 9 connects on socket 4 and then again on socket 5,
  which replaces socket 4. When the handler of socket 4 ends, it unregisters by user id:
  socket 4 is no longer registered, yet the call is no no-op, it removes the live
  socket 5 and leaves user 9 without a connection.
\<close>

theorem replaced_socket_disconnect_drops_live_connection:
  "manager (run_ops example_env [Connect 4 9, Connect 5 9] empty_world) 9 = Some 5
   \<and> manager (websocket_dm_endpoint_closed 4 9
                (run_ops example_env [Connect 4 9, Connect 5 9] empty_world)) 9 = None
   \<and> manager (run_ops example_env [Connect 4 9, Connect 5 9, Disconnect 9] empty_world) 9 = None"
  by (simp add: run_ops_def connect_def disconnect_def websocket_dm_endpoint_closed_def
        example_env_def empty_world_def)

subsection \<open>Dice notation\<close>

lemma match_3d6p2: "re_match_dice (lower (strip ''3d6+2'')) = Some (''3'', ''6'', Some (CHR ''+'', ''2''))"
  by code_simp

lemma iod3: "int_of_digits ''3'' = 3" by code_simp
lemma iod6: "int_of_digits ''6'' = 6" by code_simp

text \<open>
  C1, at the notation \<^verbatim>\<open>3d6+2\<close>: the parser accepts it and returns three rolls, each
  \<open>randint1 6\<close> of a draw, with a total that is the sum of the rolls. The modifier that
  groups 3 and 4 of the pattern captured is not added.
\<close>

theorem parse_3d6_plus_2_drops_modifier:
  "parse_dice_notation_for_rp rnd ''3d6+2'' =
     Some \<lparr>num_dice = 3, num_sides = 6,
           rolls = [randint1 6 (rnd 0), randint1 6 (rnd 1), randint1 6 (rnd 2)],
           total = randint1 6 (rnd 0) + randint1 6 (rnd 1) + randint1 6 (rnd 2)\<rparr>
   \<and> map_option (\<lambda>r. total r = sum_list (rolls r)) (parse_dice_notation_for_rp rnd ''3d6+2'')
       = Some True
   \<and> map_option (\<lambda>r. total r = sum_list (rolls r) + 2) (parse_dice_notation_for_rp rnd ''3d6+2'')
       = Some False"
proof -
  have u: "[0..<3] = [0::nat, 1, 2]" by (simp add: upt_rec)
  show ?thesis
    by (simp add: parse_dice_notation_for_rp_def match_3d6p2 iod3 iod6 u Let_def)
qed

text \<open>What the parser does keep: the bounds, the rolls, the rejections, and the order of the endpoint.\<close>

lemma randint1_range: "0 < n \<Longrightarrow> 1 \<le> randint1 n r \<and> randint1 n r \<le> n"
  by (simp add: randint1_def) (smt (verit) pos_mod_bound pos_mod_sign)

lemma parse_accepts:
  assumes "parse_dice_notation_for_rp rnd notation = Some r"
  shows "1 \<le> num_dice r \<and> num_dice r \<le> 100 \<and> 1 \<le> num_sides r
       \<and> int (length (rolls r)) = num_dice r
       \<and> (\<forall>x\<in>set (rolls r). 1 \<le> x \<and> x \<le> num_sides r)
       \<and> total r = sum_list (rolls r)"
  using assms
  by (auto simp: parse_dice_notation_for_rp_def Let_def randint1_range
           split: option.splits prod.splits if_splits)

lemma parse_rejects:
  "parse_dice_notation_for_rp rnd ''0d6'' = None"
  "parse_dice_notation_for_rp rnd ''101d6'' = None"
  "parse_dice_notation_for_rp rnd ''d6'' = None"
  "parse_dice_notation_for_rp rnd ''3d0'' = None"
proof -
  have a: "re_match_dice (lower (strip ''0d6'')) = Some (''0'', ''6'', None)" by code_simp
  have b: "re_match_dice (lower (strip ''101d6'')) = Some (''101'', ''6'', None)" by code_simp
  have c: "re_match_dice (lower (strip ''d6'')) = None" by code_simp
  have d: "re_match_dice (lower (strip ''3d0'')) = Some (''3'', ''0'', None)" by code_simp
  have i0: "int_of_digits ''0'' = 0" by code_simp
  have i101: "int_of_digits ''101'' = 101" by code_simp
  show "parse_dice_notation_for_rp rnd ''0d6'' = None"
    by (simp add: parse_dice_notation_for_rp_def a i0 iod6)
  show "parse_dice_notation_for_rp rnd ''101d6'' = None"
    by (simp add: parse_dice_notation_for_rp_def b i101 iod6)
  show "parse_dice_notation_for_rp rnd ''d6'' = None"
    by (simp add: parse_dice_notation_for_rp_def c)
  show "parse_dice_notation_for_rp rnd ''3d0'' = None"
    by (simp add: parse_dice_notation_for_rp_def d i0 iod3)
qed

lemma rp_dice_roll_rejected:
  "parse_dice_notation_for_rp rnd notation = None \<Longrightarrow>
   rp_dice_roll e rnd channel_id notation rollerName w =
     (Inl (HTTPException (if channel_id = TEST_CHANNEL_ID_FOR_GDM_RP then 400 else 403)), w)"
  by (simp add: rp_dice_roll_def)

subsection \<open>Direct messages and the cooldown\<close>

lemma next_id_fresh: "x \<in> set ids \<Longrightarrow> x < next_id ids"
  by (induction ids) (auto simp: next_id_def)

lemma find_append_fresh:
  "(\<And>x. x \<in> set xs \<Longrightarrow> \<not> P x) \<Longrightarrow> find P (xs @ [y]) = (if P y then Some y else None)"
  by (induction xs) auto

lemma find_update_first:
  "(\<And>x. P x \<Longrightarrow> P (f x)) \<Longrightarrow> find P (update_first P f xs) = map_option f (find P xs)"
  by (induction xs) auto

lemma find_None_notin: "find P xs = None \<Longrightarrow> x \<in> set xs \<Longrightarrow> \<not> P x"
  by (induction xs) (auto split: if_splits)

lemma find_Some_P: "find P xs = Some x \<Longrightarrow> P x"
  by (induction xs) (auto split: if_splits)

lemma create_direct_message_eq:
  "create_direct_message e content sid rid w =
     (let db_message = \<lparr>dm_id = next_id (map dm_id (direct_messages (db w))),
                        dm_content = content, dm_timestamp = func_now e,
                        sender_id = sid, receiver_id = rid, dm_is_read = False\<rparr>
      in (Some db_message,
          db_commit (w\<lparr>db := (db w)\<lparr>direct_messages := direct_messages (db w) @ [db_message]\<rparr>\<rparr>)))"
proof -
  have "\<And>x. x \<in> set (direct_messages (db w)) \<Longrightarrow>
          dm_id x \<noteq> next_id (map dm_id (direct_messages (db w)))"
    using next_id_fresh [of _ "map dm_id (direct_messages (db w))"] by fastforce
  then show ?thesis
    by (simp add: create_direct_message_def Let_def db_commit_def find_append_fresh)
qed

text \<open>The value of the cooldown decision, for the proofs below.\<close>

lemma can_send_email_value:
  "can_send_email e cooldown_check =
     Inr (case cooldown_check of
            None \<Rightarrow> True
          | Some c \<Rightarrow>
              (case last_email_sent_at c of
                 None \<Rightarrow> True
               | Some t \<Rightarrow> utc_instant t \<le> now_utc e - timedelta_minutes 15))"
proof (cases cooldown_check)
  case None
  then show ?thesis by (simp add: can_send_email_def)
next
  case (Some c)
  show ?thesis
  proof (cases "last_email_sent_at c")
    case None
    with Some show ?thesis by (simp add: can_send_email_def)
  next
    case (Some t)
    with \<open>cooldown_check = Some c\<close> show ?thesis
      by (cases t)
         (auto simp: can_send_email_def datetime_now_utc_def DM_EMAIL_COOLDOWN_MINUTES_def)
  qed
qed

text \<open>
  C8, as the code has it. \<open>can_send_email\<close> never raises, and it is true exactly when
  there is no cooldown record for the pair, or the record has no timestamp, or the
  timestamp is at or before \<open>now\<close> minus 15 minutes; the timestamp is taken as an instant
  in UTC, a naive one read as UTC and an aware one by its offset.
\<close>

theorem can_send_email_iff:
  "can_send_email e cooldown_check =
     Inr (case cooldown_check of
            None \<Rightarrow> True
          | Some c \<Rightarrow>
              (case last_email_sent_at c of
                 None \<Rightarrow> True
               | Some t \<Rightarrow> utc_instant t \<le> now_utc e - timedelta_minutes 15))"
  by (rule can_send_email_value)

text \<open>
  The claim C8 as stated fails on the boundary: a record whose timestamp is exactly
  15 minutes old is not older than \<open>now\<close> minus the window, and the e-mail is allowed.
\<close>

theorem cooldown_boundary_counterexample:
  "can_send_email example_env
     (Some \<lparr>cd_id = 1, original_sender_id = 1, cd_receiver_id = 2,
            last_email_sent_at = Some (Naive (timedelta_hours 1000 - timedelta_minutes 15))\<rparr>)
     = Inr True
   \<and> \<not> (utc_instant (Naive (timedelta_hours 1000 - timedelta_minutes 15))
          < now_utc example_env - timedelta_minutes 15)"
  by (simp add: can_send_email_def example_env_def datetime_now_utc_def
        DM_EMAIL_COOLDOWN_MINUTES_def timedelta_hours_def timedelta_minutes_def)

text \<open>
  C10. A direct message addressed to the sender's own user id fails with HTTP 400 and the
  world is as it was: no message, notification or cooldown row, no push, no e-mail task.
\<close>

theorem self_send_rejected:
  "u_id current_user = receiver_user_id \<Longrightarrow>
   send_direct_message e receiver_user_id content current_user w = (Inl (HTTPException 400), w)"
  by (simp add: send_direct_message_def)

theorem self_send_rejected_witness:
  "u_id alice = 1 \<and>
   send_direct_message example_env 1 ''hello me'' alice (world_with [alice, bob] []) =
     (Inl (HTTPException 400), world_with [alice, bob] [])"
proof -
  have h: "u_id alice = 1" by (simp add: alice_def)
  show ?thesis using h self_send_rejected [OF h] by simp
qed

subsection \<open>The notification policy of a direct message\<close>

lemma upsert_fields:
  "manager (upsert_dm_notification_cooldown e s r w) = manager w"
  "wire (upsert_dm_notification_cooldown e s r w) = wire w"
  "background_tasks (upsert_dm_notification_cooldown e s r w) = background_tasks w"
  "notifications (db (upsert_dm_notification_cooldown e s r w)) = notifications (db w)"
  "direct_messages (db (upsert_dm_notification_cooldown e s r w)) = direct_messages (db w)"
  by (simp_all add: upsert_dm_notification_cooldown_def get_dm_notification_cooldown_def
        db_commit_def split: option.splits)

lemma upsert_sets_now:
  "\<exists>c. find (\<lambda>c. original_sender_id c = s \<and> cd_receiver_id c = r)
          (dm_notification_cooldowns (db (upsert_dm_notification_cooldown e s r w))) = Some c
       \<and> last_email_sent_at c = Some (func_now e)"
proof (cases "find (\<lambda>c. original_sender_id c = s \<and> cd_receiver_id c = r)
                (dm_notification_cooldowns (db w))")
  case None
  then have "\<And>x. x \<in> set (dm_notification_cooldowns (db w)) \<Longrightarrow>
               \<not> (original_sender_id x = s \<and> cd_receiver_id x = r)"
    by (rule find_None_notin)
  then show ?thesis using None
    by (simp add: upsert_dm_notification_cooldown_def get_dm_notification_cooldown_def
          db_commit_def find_append_fresh)
next
  case (Some c)
  then show ?thesis
    by (simp add: upsert_dm_notification_cooldown_def get_dm_notification_cooldown_def
          db_commit_def find_update_first)
qed


lemma upsert_trace:
  "trace (upsert_dm_notification_cooldown e s r w) = trace w @ [CooldownRead s r]"
  by (simp add: upsert_dm_notification_cooldown_def get_dm_notification_cooldown_def
        db_commit_def split: option.splits)

lemma dm_email_fallback_ok: "fst (dm_email_fallback e cu ru content w) = Inr ()"
  by (simp add: dm_email_fallback_def get_dm_notification_cooldown_def can_send_email_value
        split: bool.splits)

lemma dm_email_fallback_frame:
  "manager (snd (dm_email_fallback e cu ru content w)) = manager w"
  "wire (snd (dm_email_fallback e cu ru content w)) = wire w"
  "notifications (db (snd (dm_email_fallback e cu ru content w))) = notifications (db w)"
  by (simp_all add: dm_email_fallback_def get_dm_notification_cooldown_def can_send_email_value
        upsert_fields split: bool.splits)

lemma dm_email_fallback_online:
  "u_id ru \<in> dom (manager w) \<Longrightarrow> dm_email_fallback e cu ru content w = (Inr (), w)"
  by (simp add: dm_email_fallback_def)

lemma dm_email_fallback_within:
  assumes "find (\<lambda>c. original_sender_id c = u_id cu \<and> cd_receiver_id c = u_id ru)
             (dm_notification_cooldowns (db w)) = Some c"
    and "last_email_sent_at c = Some t"
    and "now_utc e < utc_instant t + timedelta_minutes 15"
  shows "background_tasks (snd (dm_email_fallback e cu ru content w)) = background_tasks w
       \<and> dm_notification_cooldowns (db (snd (dm_email_fallback e cu ru content w)))
           = dm_notification_cooldowns (db w)"
  using assms
  by (simp add: dm_email_fallback_def get_dm_notification_cooldown_def can_send_email_value)

lemma dm_email_fallback_exactly:
  "(background_tasks (snd (dm_email_fallback e cu ru content w)) = background_tasks w
    \<and> dm_notification_cooldowns (db (snd (dm_email_fallback e cu ru content w)))
        = dm_notification_cooldowns (db w))
   \<or> (background_tasks (snd (dm_email_fallback e cu ru content w))
        = background_tasks w @ [dm_email_task e cu ru content]
      \<and> (\<exists>c. find (\<lambda>c. original_sender_id c = u_id cu \<and> cd_receiver_id c = u_id ru)
                (dm_notification_cooldowns (db (snd (dm_email_fallback e cu ru content w)))) = Some c
             \<and> last_email_sent_at c = Some (func_now e)))"
proof -
  let ?w1 = "w\<lparr>trace := trace w @ [CooldownRead (u_id cu) (u_id ru)]\<rparr>"
  let ?w2 = "?w1\<lparr>background_tasks := background_tasks ?w1 @ [dm_email_task e cu ru content]\<rparr>"
  have u: "\<exists>c. find (\<lambda>c. original_sender_id c = u_id cu \<and> cd_receiver_id c = u_id ru)
          (dm_notification_cooldowns (db (upsert_dm_notification_cooldown e (u_id cu) (u_id ru) ?w2))) = Some c
       \<and> last_email_sent_at c = Some (func_now e)"
    by (rule upsert_sets_now)
  show ?thesis
    using u
    by (simp add: dm_email_fallback_def get_dm_notification_cooldown_def can_send_email_value
          upsert_fields split: bool.splits)
qed

lemma send_personal_message_json_frame:
  "manager (snd (send_personal_message_json e d u w)) = manager w"
  "db (snd (send_personal_message_json e d u w)) = db w"
  "background_tasks (snd (send_personal_message_json e d u w)) = background_tasks w"
  "trace (snd (send_personal_message_json e d u w)) = trace w"
  by (simp_all add: send_personal_message_json_def split: option.splits)

lemma after_persist_frame:
  "manager (after_persist e r content cu w) = manager w"
  "trace (after_persist e r content cu w) = trace w"
  "background_tasks (after_persist e r content cu w) = background_tasks w"
  "dm_notification_cooldowns (db (after_persist e r content cu w)) = dm_notification_cooldowns (db w)"
  by (simp_all add: after_persist_def create_notification_def create_direct_message_eq
        Let_def db_commit_def)

lemma after_persist_notification:
  "\<exists>n. notifications (db (after_persist e r content cu w)) = notifications (db w) @ [n]
       \<and> n_user_id n = r \<and> n_type n = ''new_dm''"
  by (simp add: after_persist_def create_notification_def create_direct_message_eq
        Let_def db_commit_def)

lemma send_direct_message_world:
  assumes "u_id cu \<noteq> r" and "get_user_by_id (db w) r = Some ru"
  shows "snd (send_direct_message e r content cu w) =
           snd (send_personal_message_json e
                  (the (fst (create_direct_message e content (u_id cu) r w))) r
                  (snd (dm_email_fallback e cu ru content (after_persist e r content cu w))))"
proof -
  obtain w3 where f: "dm_email_fallback e cu ru content (after_persist e r content cu w) = (Inr (), w3)"
    using dm_email_fallback_ok [of e cu ru content "after_persist e r content cu w"]
    by (cases "dm_email_fallback e cu ru content (after_persist e r content cu w)") auto
  show ?thesis
    using assms f
    by (simp add: send_direct_message_def create_direct_message_eq Let_def after_persist_def
          split: prod.splits sum.splits)
qed

text \<open>
  C9. Take a direct message that passes the two checks (the receiver is not the sender and
  exists). Whatever happens afterwards, one \<^verbatim>\<open>new_dm\<close> notification for the receiver is
  appended. If the receiver is in the user registry, the cooldown table is neither read
  nor written and no e-mail task is added. If a cooldown record of the pair is younger
  than 15 minutes, no e-mail task is added and the table stays as it is. And either no
  task is added and the table is unchanged, or the one e-mail task is handed to the
  background tasks and the pair's record carries the current time.
\<close>

theorem direct_message_notification_policy:
  assumes "u_id cu \<noteq> r" and "get_user_by_id (db w) r = Some ru"
  shows "let w' = snd (send_direct_message e r content cu w) in
      (\<exists>n. notifications (db w') = notifications (db w) @ [n]
           \<and> n_user_id n = r \<and> n_type n = ''new_dm'')
    \<and> (r \<in> dom (manager w) \<longrightarrow>
          trace w' = trace w
        \<and> dm_notification_cooldowns (db w') = dm_notification_cooldowns (db w)
        \<and> background_tasks w' = background_tasks w)
    \<and> (\<forall>c t. find (\<lambda>c. original_sender_id c = u_id cu \<and> cd_receiver_id c = r)
                 (dm_notification_cooldowns (db w)) = Some c
              \<and> last_email_sent_at c = Some t
              \<and> now_utc e < utc_instant t + timedelta_minutes 15 \<longrightarrow>
          background_tasks w' = background_tasks w
        \<and> dm_notification_cooldowns (db w') = dm_notification_cooldowns (db w))
    \<and> ((background_tasks w' = background_tasks w
         \<and> dm_notification_cooldowns (db w') = dm_notification_cooldowns (db w))
       \<or> (background_tasks w' = background_tasks w @ [dm_email_task e cu ru content]
         \<and> (\<exists>c. find (\<lambda>c. original_sender_id c = u_id cu \<and> cd_receiver_id c = r)
                   (dm_notification_cooldowns (db w')) = Some c
                \<and> last_email_sent_at c = Some (func_now e))))"
proof -
  let ?w2 = "after_persist e r content cu w"
  let ?w3 = "snd (dm_email_fallback e cu ru content ?w2)"
  let ?w' = "snd (send_direct_message e r content cu w)"
  have id: "u_id ru = r"
    using assms(2) find_Some_P [of "\<lambda>u. u_id u = r" "users (db w)" ru]
    by (simp add: get_user_by_id_def)
  have w': "?w' = snd (send_personal_message_json e
                  (the (fst (create_direct_message e content (u_id cu) r w))) r ?w3)"
    using assms by (rule send_direct_message_world)
  have bt: "background_tasks ?w' = background_tasks ?w3"
    and tr: "trace ?w' = trace ?w3"
    and dbw: "db ?w' = db ?w3"
    by (simp_all add: w' send_personal_message_json_frame)
  have a: "\<exists>n. notifications (db ?w') = notifications (db w) @ [n]
           \<and> n_user_id n = r \<and> n_type n = ''new_dm''"
    using after_persist_notification [of e r content cu w]
    by (simp add: dbw dm_email_fallback_frame)
  have b: "r \<in> dom (manager w) \<longrightarrow>
          trace ?w' = trace w
        \<and> dm_notification_cooldowns (db ?w') = dm_notification_cooldowns (db w)
        \<and> background_tasks ?w' = background_tasks w"
  proof
    assume "r \<in> dom (manager w)"
    then have "u_id ru \<in> dom (manager ?w2)" by (simp add: id after_persist_frame)
    then have "?w3 = ?w2" by (simp add: dm_email_fallback_online)
    then show "trace ?w' = trace w
        \<and> dm_notification_cooldowns (db ?w') = dm_notification_cooldowns (db w)
        \<and> background_tasks ?w' = background_tasks w"
      by (simp add: bt tr dbw after_persist_frame)
  qed
  have c: "\<forall>c t. find (\<lambda>c. original_sender_id c = u_id cu \<and> cd_receiver_id c = r)
                 (dm_notification_cooldowns (db w)) = Some c
              \<and> last_email_sent_at c = Some t
              \<and> now_utc e < utc_instant t + timedelta_minutes 15 \<longrightarrow>
          background_tasks ?w' = background_tasks w
        \<and> dm_notification_cooldowns (db ?w') = dm_notification_cooldowns (db w)"
  proof (intro allI impI)
    fix c t
    assume h: "find (\<lambda>c. original_sender_id c = u_id cu \<and> cd_receiver_id c = r)
                 (dm_notification_cooldowns (db w)) = Some c
              \<and> last_email_sent_at c = Some t
              \<and> now_utc e < utc_instant t + timedelta_minutes 15"
    then have "find (\<lambda>c. original_sender_id c = u_id cu \<and> cd_receiver_id c = u_id ru)
                 (dm_notification_cooldowns (db ?w2)) = Some c"
      by (simp add: id after_persist_frame)
    from dm_email_fallback_within [OF this, of t e content] h
    show "background_tasks ?w' = background_tasks w
        \<and> dm_notification_cooldowns (db ?w') = dm_notification_cooldowns (db w)"
      by (simp add: bt dbw after_persist_frame)
  qed
  have d: "(background_tasks ?w' = background_tasks w
         \<and> dm_notification_cooldowns (db ?w') = dm_notification_cooldowns (db w))
       \<or> (background_tasks ?w' = background_tasks w @ [dm_email_task e cu ru content]
         \<and> (\<exists>c. find (\<lambda>c. original_sender_id c = u_id cu \<and> cd_receiver_id c = r)
                   (dm_notification_cooldowns (db ?w')) = Some c
                \<and> last_email_sent_at c = Some (func_now e)))"
    using dm_email_fallback_exactly [of e cu ru content ?w2]
    by (simp add: bt dbw id after_persist_frame)
  from a b c d show ?thesis by (simp add: Let_def)
qed

theorem direct_message_notification_policy_witness:
  "u_id alice \<noteq> 2
   \<and> get_user_by_id (db cooled_world) 2 = Some bob
   \<and> 2 \<in> dom (manager cooled_world)
   \<and> find (\<lambda>c. original_sender_id c = u_id alice \<and> cd_receiver_id c = 2)
         (dm_notification_cooldowns (db cooled_world))
       = Some \<lparr>cd_id = 1, original_sender_id = 1, cd_receiver_id = 2,
                last_email_sent_at = Some (Aware (timedelta_hours 1000 - timedelta_minutes 5) 0)\<rparr>
   \<and> now_utc example_env
       < utc_instant (Aware (timedelta_hours 1000 - timedelta_minutes 5) 0) + timedelta_minutes 15
   \<and> trace (snd (send_direct_message example_env 2 ''hi'' alice cooled_world)) = []
   \<and> background_tasks (snd (send_direct_message example_env 2 ''hi'' alice cooled_world)) = []
   \<and> dm_notification_cooldowns (db (snd (send_direct_message example_env 2 ''hi'' alice cooled_world)))
       = dm_notification_cooldowns (db cooled_world)
   \<and> length (notifications (db (snd (send_direct_message example_env 2 ''hi'' alice cooled_world)))) = 1"
proof -
  have h1: "u_id alice \<noteq> 2" by (simp add: alice_def)
  have h2: "get_user_by_id (db cooled_world) 2 = Some bob"
    by (simp add: get_user_by_id_def cooled_world_def cooled_db_def empty_db_def alice_def bob_def)
  have h3: "2 \<in> dom (manager cooled_world)" by (simp add: cooled_world_def)
  have h4: "now_utc example_env
       < utc_instant (Aware (timedelta_hours 1000 - timedelta_minutes 5) 0) + timedelta_minutes 15"
    by (simp add: example_env_def timedelta_hours_def timedelta_minutes_def)
  have h5: "find (\<lambda>c. original_sender_id c = u_id alice \<and> cd_receiver_id c = 2)
         (dm_notification_cooldowns (db cooled_world))
       = Some \<lparr>cd_id = 1, original_sender_id = 1, cd_receiver_id = 2,
                last_email_sent_at = Some (Aware (timedelta_hours 1000 - timedelta_minutes 5) 0)\<rparr>"
    by (simp add: cooled_world_def cooled_db_def alice_def)
  have t: "trace cooled_world = []" "background_tasks cooled_world = []"
    "notifications (db cooled_world) = []"
    by (simp_all add: cooled_world_def cooled_db_def empty_world_def empty_db_def)
  from direct_message_notification_policy [OF h1 h2, of example_env "''hi''"] h1 h2 h3 h4 t
  have "trace (snd (send_direct_message example_env 2 ''hi'' alice cooled_world)) = []
   \<and> background_tasks (snd (send_direct_message example_env 2 ''hi'' alice cooled_world)) = []
   \<and> dm_notification_cooldowns (db (snd (send_direct_message example_env 2 ''hi'' alice cooled_world)))
       = dm_notification_cooldowns (db cooled_world)
   \<and> length (notifications (db (snd (send_direct_message example_env 2 ''hi'' alice cooled_world)))) = 1"
    by (auto simp: Let_def)
  with h1 h2 h3 h4 h5 show ?thesis by blast
qed

subsection \<open>Delivery to one user\<close>

text \<open>
  The paths of \<open>send_personal_message_json\<close> on which nothing fails. With no connection
  for the user it returns normally and writes nothing; with a connection that takes the
  write it puts the payload on exactly that connection and returns normally.
\<close>

lemma send_personal_message_json_delivery:
  "(manager w user_id = None \<longrightarrow>
      send_personal_message_json e data user_id w = (Inr (), w))
 \<and> (\<forall>c. manager w user_id = Some c \<and> send_ok e c \<longrightarrow>
      send_personal_message_json e data user_id w
        = (Inr (), w\<lparr>wire := wire w @ [(c, DmFrame data)]\<rparr>))"
  by (simp add: send_personal_message_json_def)

lemma send_personal_message_json_delivery_example:
  "manager dm_world 3 = None
   \<and> send_personal_message_json example_env example_dm 3 dm_world = (Inr (), dm_world)
   \<and> manager dm_world 1 = Some 4 \<and> send_ok example_env 4
   \<and> send_personal_message_json example_env example_dm 1 dm_world
        = (Inr (), dm_world\<lparr>wire := wire dm_world @ [(4, DmFrame example_dm)]\<rparr>)"
proof -
  have a: "manager dm_world 3 = None" by (simp add: dm_world_def)
  have b: "manager dm_world 1 = Some 4" by (simp add: dm_world_def)
  have c: "send_ok example_env 4" by (simp add: example_env_def)
  from send_personal_message_json_delivery [of dm_world 3 example_env example_dm]
       send_personal_message_json_delivery [of dm_world 1 example_env example_dm] a b c
  show ?thesis by blast
qed

lemma send_direct_message_result:
  assumes "u_id cu \<noteq> r" and "get_user_by_id (db w) r = Some ru"
  shows "fst (send_direct_message e r content cu w) =
           (case fst (send_personal_message_json e
                        (the (fst (create_direct_message e content (u_id cu) r w))) r
                        (snd (dm_email_fallback e cu ru content (after_persist e r content cu w)))) of
              Inl err \<Rightarrow> Inl err
            | Inr u \<Rightarrow> Inr (the (fst (create_direct_message e content (u_id cu) r w))))"
proof -
  obtain w3 where f: "dm_email_fallback e cu ru content (after_persist e r content cu w) = (Inr (), w3)"
    using dm_email_fallback_ok [of e cu ru content "after_persist e r content cu w"]
    by (cases "dm_email_fallback e cu ru content (after_persist e r content cu w)") auto
  show ?thesis
    using assms f
    by (simp add: send_direct_message_def create_direct_message_eq Let_def after_persist_def
          split: prod.splits sum.splits)
qed

text \<open>
  C2, at a receiver whose registered socket raises on write. Bob (user 2) is registered
  on socket 7, and writes to socket 7 fail. \<open>send_personal_message_json\<close> returns no
  \<open>False\<close>: the exception leaves it, and socket 7 is still registered afterwards. In
  \<open>send_direct_message\<close> the same exception ends the request after the message and the
  notification are committed, again with socket 7 still registered.
\<close>

theorem push_failure_ends_request:
  "manager dm_world 2 = Some 7 \<and> \<not> send_ok example_env 7
   \<and> fst (send_personal_message_json example_env example_dm 2 dm_world) = Inl WebSocketError
   \<and> manager (snd (send_personal_message_json example_env example_dm 2 dm_world)) 2 = Some 7
   \<and> fst (send_direct_message example_env 2 ''hi'' alice dm_world) = Inl WebSocketError
   \<and> manager (snd (send_direct_message example_env 2 ''hi'' alice dm_world)) 2 = Some 7
   \<and> map dm_content (direct_messages (db_committed
            (snd (send_direct_message example_env 2 ''hi'' alice dm_world)))) = [''hi'']
   \<and> map n_type (notifications (db_committed
            (snd (send_direct_message example_env 2 ''hi'' alice dm_world)))) = [''new_dm'']"
proof -
  have a: "u_id alice \<noteq> 2" by (simp add: alice_def)
  have b: "get_user_by_id (db dm_world) 2 = Some bob"
    by (simp add: get_user_by_id_def dm_world_def world_with_def alice_def bob_def)
  have on: "u_id bob \<in> dom (manager (after_persist example_env 2 ''hi'' alice dm_world))"
    by (simp add: after_persist_frame dm_world_def bob_def)
  have fb: "dm_email_fallback example_env alice bob ''hi'' (after_persist example_env 2 ''hi'' alice dm_world)
            = (Inr (), after_persist example_env 2 ''hi'' alice dm_world)"
    using on by (rule dm_email_fallback_online)
  have m: "manager (after_persist example_env 2 ''hi'' alice dm_world) 2 = Some 7"
    by (simp add: after_persist_frame dm_world_def)
  have s7: "\<not> send_ok example_env 7" by (simp add: example_env_def)
  have p: "send_personal_message_json example_env d 2 (after_persist example_env 2 ''hi'' alice dm_world)
            = (Inl WebSocketError, after_persist example_env 2 ''hi'' alice dm_world)" for d
    using m s7 by (simp add: send_personal_message_json_def)
  have w': "snd (send_direct_message example_env 2 ''hi'' alice dm_world)
            = after_persist example_env 2 ''hi'' alice dm_world"
    using send_direct_message_world [OF a b, of example_env "''hi''"] fb p by simp
  have r: "fst (send_direct_message example_env 2 ''hi'' alice dm_world) = Inl WebSocketError"
    using send_direct_message_result [OF a b, of example_env "''hi''"] fb p by simp
  have c1: "map dm_content (direct_messages (db_committed
              (after_persist example_env 2 ''hi'' alice dm_world))) = [''hi'']"
    by (simp add: after_persist_def create_notification_def create_direct_message_eq Let_def
          db_commit_def dm_world_def world_with_def empty_world_def empty_db_def)
  have c2: "map n_type (notifications (db_committed
              (after_persist example_env 2 ''hi'' alice dm_world))) = [''new_dm'']"
    by (simp add: after_persist_def create_notification_def create_direct_message_eq Let_def
          db_commit_def dm_world_def world_with_def empty_world_def empty_db_def)
  have d: "manager dm_world 2 = Some 7" by (simp add: dm_world_def)
  have e1: "fst (send_personal_message_json example_env example_dm 2 dm_world) = Inl WebSocketError"
    "manager (snd (send_personal_message_json example_env example_dm 2 dm_world)) 2 = Some 7"
    using d s7 by (simp_all add: send_personal_message_json_def)
  from d s7 e1 r w' m c1 c2 show ?thesis by simp
qed

subsection \<open>The digest task\<close>

lemma prepare_raises:
  "n_type n \<in> set DIGEST_NOTIFICATION_TYPES \<Longrightarrow>
   prepare_notification_data_for_email n = Inl AttributeError"
  by (auto simp: prepare_notification_data_for_email_def DIGEST_NOTIFICATION_TYPES_def Let_def)

lemma group_loop_raises:
  assumes "ns \<noteq> []"
    and "\<forall>n\<in>set ns. n_type n \<in> set DIGEST_NOTIFICATION_TYPES"
    and "fst ` set grouped = set DIGEST_NOTIFICATION_TYPES"
  shows "group_loop ns grouped = Inl AttributeError"
proof (cases ns)
  case Nil
  with assms(1) show ?thesis by simp
next
  case (Cons n rest)
  then have "n_type n \<in> set DIGEST_NOTIFICATION_TYPES" using assms(2) by simp
  then show ?thesis using Cons assms(3) by (simp add: prepare_raises)
qed

lemma group_raises:
  assumes "ns \<noteq> []" and "\<forall>n\<in>set ns. n_type n \<in> set DIGEST_NOTIFICATION_TYPES"
  shows "group_notifications_for_digest ns = Inl AttributeError"
  unfolding group_notifications_for_digest_def
  by (rule group_loop_raises [OF assms]) (simp add: image_image)

lemma fetched_types:
  "\<forall>n\<in>set (fst (get_notifications_for_digest uid since ex DIGEST_NOTIFICATION_TYPES w)).
     n_type n \<in> set DIGEST_NOTIFICATION_TYPES"
  by (auto simp: get_notifications_for_digest_def DIGEST_NOTIFICATION_TYPES_def)

lemma get_notifications_world:
  "snd (get_notifications_for_digest uid since ex inc w) = w\<lparr>trace := trace w @ [DigestFetch uid]\<rparr>"
  by (simp add: get_notifications_for_digest_def)

text \<open>
  Every fetched notification is of a digest type, so the digest of a user with pending
  notifications always raises, after the fetch and before any send.
\<close>

lemma send_digests_for_user_value:
  "send_digests_for_user e user w =
     ((if fst (get_notifications_for_digest (u_id user)
                (Some (case last_digest_sent_at user of Some t \<Rightarrow> t
                       | None \<Rightarrow> dt_add (datetime_now_utc e) (- timedelta_hours DIGEST_PERIOD_HOURS)))
                EXCLUDED_FROM_DIGEST_TYPES DIGEST_NOTIFICATION_TYPES w) = []
       then Inr () else Inl AttributeError),
      w\<lparr>trace := trace w @ [DigestFetch (u_id user)]\<rparr>)"
proof -
  let ?since = "(case last_digest_sent_at user of Some t \<Rightarrow> t
                       | None \<Rightarrow> dt_add (datetime_now_utc e) (- timedelta_hours DIGEST_PERIOD_HOURS))"
  let ?g = "get_notifications_for_digest (u_id user) (Some ?since)
                EXCLUDED_FROM_DIGEST_TYPES DIGEST_NOTIFICATION_TYPES w"
  obtain ns w1 where g: "?g = (ns, w1)" by (cases ?g) auto
  have w1: "w1 = w\<lparr>trace := trace w @ [DigestFetch (u_id user)]\<rparr>"
    using g get_notifications_world [of "u_id user" "Some ?since" EXCLUDED_FROM_DIGEST_TYPES
        DIGEST_NOTIFICATION_TYPES w] by simp
  have ty: "\<forall>n\<in>set ns. n_type n \<in> set DIGEST_NOTIFICATION_TYPES"
    using g fetched_types [of "u_id user" "Some ?since" EXCLUDED_FROM_DIGEST_TYPES w] by simp
  show ?thesis
  proof (cases "ns = []")
    case True
    then show ?thesis using g w1 by (simp add: send_digests_for_user_def Let_def)
  next
    case False
    then have "group_notifications_for_digest ns = Inl AttributeError"
      using ty by (rule group_raises)
    then show ?thesis using g w1 False by (simp add: send_digests_for_user_def Let_def)
  qed
qed

lemma digest_not_yet_time_aware:
  "last_digest_sent_at user = Some (Aware t off) \<Longrightarrow>
   digest_not_yet_time e user = Inr (now_utc e < t - off + timedelta_hours 23)"
  by (auto simp: digest_not_yet_time_def datetime_now_utc_def DIGEST_PERIOD_HOURS_def)

lemma digest_not_yet_time_rule:
  "stamp_usable u \<Longrightarrow> digest_not_yet_time e u = Inr (skip_rule e u)"
  by (auto simp: stamp_usable_def skip_rule_def digest_not_yet_time_def datetime_now_utc_def
        DIGEST_PERIOD_HOURS_def timedelta_hours_def split: option.splits datetime.splits)

lemma digest_loop_trace:
  "\<exists>tr. trace (snd (digest_loop e us w)) = trace w @ tr"
proof (induction us arbitrary: w)
  case Nil
  then show ?case by simp
next
  case (Cons u us)
  show ?case
  proof (cases "digest_not_yet_time e u")
    case (Inl err)
    then show ?thesis by simp
  next
    case (Inr b)
    show ?thesis
    proof (cases b)
      case True
      with Inr Cons.IH [of w] show ?thesis by simp
    next
      case False
      let ?w1 = "w\<lparr>trace := trace w @ [DigestFetch (u_id u)]\<rparr>"
      from Cons.IH [of ?w1] obtain tr where
        "trace (snd (digest_loop e us ?w1)) = trace w @ DigestFetch (u_id u) # tr"
        by auto
      with Inr False show ?thesis
        by (auto simp: send_digests_for_user_value)
    qed
  qed
qed

lemma digest_loop_fetches_head:
  assumes "digest_not_yet_time e u = Inr False"
  shows "\<exists>tr. trace (snd (digest_loop e (u # rest) w)) = trace w @ DigestFetch (u_id u) # tr"
proof -
  let ?w1 = "w\<lparr>trace := trace w @ [DigestFetch (u_id u)]\<rparr>"
  from digest_loop_trace [of e rest ?w1] obtain tr where
    "trace (snd (digest_loop e rest ?w1)) = trace w @ DigestFetch (u_id u) # tr"
    by auto
  with assms show ?thesis
    by (auto simp: send_digests_for_user_value)
qed

lemma digest_loop_filter:
  "\<forall>u\<in>set us. stamp_usable u \<Longrightarrow>
   digest_loop e us w = digest_loop e (filter (\<lambda>u. \<not> skip_rule e u) us) w"
proof (induction us arbitrary: w)
  case Nil
  then show ?case by simp
next
  case (Cons u us)
  then have d: "digest_not_yet_time e u = Inr (skip_rule e u)"
    by (simp add: digest_not_yet_time_rule)
  have ih: "digest_loop e us w' = digest_loop e (filter (\<lambda>u. \<not> skip_rule e u) us) w'" for w'
    using Cons by simp
  show ?case
  proof (cases "skip_rule e u")
    case True
    with d ih show ?thesis by simp
  next
    case False
    with d ih show ?thesis by (simp split: prod.splits sum.splits)
  qed
qed

lemma digest_loop_all_skipped:
  "\<forall>u\<in>set us. stamp_usable u \<Longrightarrow> \<forall>u\<in>set us. skip_rule e u \<Longrightarrow>
   digest_loop e us w = (Inr (), w)"
  by (induction us) (simp_all add: digest_not_yet_time_rule)

text \<open>
  C3, as the code has it. Let every user of the run have a \<^verbatim>\<open>last_digest_sent_at\<close> that
  is unset or timezone-aware. Then the test of the loop is the rule \<open>skip_rule\<close>: a user is
  skipped exactly when the stamp is set and \<open>now < last + 23 hours\<close>, the 24-hour period
  less the buffer of one hour. The run is the run over the users that are not skipped:
  a skipped user, wherever it stands in the list, adds no send and no change of state,
  and the loop goes on with the users after it; when all are skipped the world is
  returned as it was. A user that is not skipped has the pending notifications fetched.
  A user whose last digest is exactly 23 hours old is not skipped, and neither is one
  whose last digest is 25 hours old, nor one who never had a digest.
\<close>

theorem digest_skip_rule:
  assumes "\<forall>u\<in>set us. stamp_usable u"
  shows "(\<forall>u\<in>set us. digest_not_yet_time e u = Inr (skip_rule e u))
       \<and> digest_loop e us w = digest_loop e (filter (\<lambda>u. \<not> skip_rule e u) us) w
       \<and> (us = filter email_notifications_enabled (users (db w)) \<longrightarrow>
            scheduled_digest_sender_task e w
              = digest_loop e (filter (\<lambda>u. \<not> skip_rule e u) us) w)
       \<and> (\<forall>u rest. us = u # rest \<and> skip_rule e u \<longrightarrow>
            digest_loop e us w = digest_loop e rest w)
       \<and> (\<forall>u rest. us = u # rest \<and> \<not> skip_rule e u \<longrightarrow>
            (\<exists>tr. trace (snd (digest_loop e us w)) = trace w @ DigestFetch (u_id u) # tr))
       \<and> ((\<forall>u\<in>set us. skip_rule e u) \<longrightarrow> digest_loop e us w = (Inr (), w))
       \<and> (\<forall>u\<in>set us. last_digest_sent_at u = None \<longrightarrow> \<not> skip_rule e u)
       \<and> (\<forall>u\<in>set us. \<forall>t off. last_digest_sent_at u = Some (Aware t off) \<longrightarrow>
            skip_rule e u = (now_utc e < t - off + timedelta_hours 23))
       \<and> (\<forall>u\<in>set us. \<forall>t off. last_digest_sent_at u = Some (Aware t off)
            \<and> t - off = now_utc e - timedelta_hours 23 \<longrightarrow> \<not> skip_rule e u)
       \<and> (\<forall>u\<in>set us. \<forall>t off. last_digest_sent_at u = Some (Aware t off)
            \<and> t - off = now_utc e - timedelta_hours 25 \<longrightarrow> \<not> skip_rule e u)"
proof -
  have 1: "\<forall>u\<in>set us. digest_not_yet_time e u = Inr (skip_rule e u)"
    using assms by (simp add: digest_not_yet_time_rule)
  have 2: "digest_loop e us w = digest_loop e (filter (\<lambda>u. \<not> skip_rule e u) us) w"
    using assms by (rule digest_loop_filter)
  have 3: "us = filter email_notifications_enabled (users (db w)) \<longrightarrow>
            scheduled_digest_sender_task e w
              = digest_loop e (filter (\<lambda>u. \<not> skip_rule e u) us) w"
  proof
    assume u: "us = filter email_notifications_enabled (users (db w))"
    have "scheduled_digest_sender_task e w = digest_loop e us w"
      unfolding scheduled_digest_sender_task_def u ..
    also note 2
    finally show "scheduled_digest_sender_task e w
              = digest_loop e (filter (\<lambda>u. \<not> skip_rule e u) us) w" .
  qed
  have 4: "\<forall>u rest. us = u # rest \<and> skip_rule e u \<longrightarrow>
            digest_loop e us w = digest_loop e rest w"
    using 1 by auto
  have 5: "\<forall>u rest. us = u # rest \<and> \<not> skip_rule e u \<longrightarrow>
            (\<exists>tr. trace (snd (digest_loop e us w)) = trace w @ DigestFetch (u_id u) # tr)"
  proof (intro allI impI)
    fix u rest
    assume h: "us = u # rest \<and> \<not> skip_rule e u"
    then have "digest_not_yet_time e u = Inr False" using 1 by auto
    then show "\<exists>tr. trace (snd (digest_loop e us w)) = trace w @ DigestFetch (u_id u) # tr"
      using h digest_loop_fetches_head [of e u rest w] by simp
  qed
  have 6: "(\<forall>u\<in>set us. skip_rule e u) \<longrightarrow> digest_loop e us w = (Inr (), w)"
    using assms by (simp add: digest_loop_all_skipped)
  have 7: "\<forall>u\<in>set us. last_digest_sent_at u = None \<longrightarrow> \<not> skip_rule e u"
    by (simp add: skip_rule_def)
  have 8: "\<forall>u\<in>set us. \<forall>t off. last_digest_sent_at u = Some (Aware t off) \<longrightarrow>
            skip_rule e u = (now_utc e < t - off + timedelta_hours 23)"
    by (auto simp: skip_rule_def DIGEST_PERIOD_HOURS_def timedelta_hours_def)
  have 9: "\<forall>u\<in>set us. \<forall>t off. last_digest_sent_at u = Some (Aware t off)
            \<and> t - off = now_utc e - timedelta_hours 23 \<longrightarrow> \<not> skip_rule e u"
    by (simp add: skip_rule_def DIGEST_PERIOD_HOURS_def timedelta_hours_def)
  have 10: "\<forall>u\<in>set us. \<forall>t off. last_digest_sent_at u = Some (Aware t off)
            \<and> t - off = now_utc e - timedelta_hours 25 \<longrightarrow> \<not> skip_rule e u"
    by (simp add: skip_rule_def DIGEST_PERIOD_HOURS_def timedelta_hours_def)
  from 1 2 3 4 5 6 7 8 9 10 show ?thesis by blast
qed

theorem digest_skip_rule_witness:
  "stamp_usable (alice_at 990) \<and> stamp_usable bob
   \<and> skip_rule example_env (alice_at 990) \<and> \<not> skip_rule example_env bob
   \<and> digest_not_yet_time example_env (alice_at 990) = Inr True
   \<and> digest_not_yet_time example_env bob = Inr False
   \<and> scheduled_digest_sender_task example_env (world_with [alice_at 990, bob] two_updates)
       = digest_loop example_env [bob] (world_with [alice_at 990, bob] two_updates)
   \<and> digest_loop example_env [alice_at 990, bob] (world_with [alice_at 990, bob] two_updates)
       = digest_loop example_env [bob] (world_with [alice_at 990, bob] two_updates)
   \<and> digest_loop example_env [alice_at 990] (world_with [alice_at 990] two_updates)
       = (Inr (), world_with [alice_at 990] two_updates)
   \<and> DigestFetch 2
        \<in> set (trace (snd (digest_loop example_env [bob, alice_at 990]
                               (world_with [bob, alice_at 990] two_updates))))
   \<and> \<not> skip_rule example_env (alice_at 977) \<and> \<not> skip_rule example_env (alice_at 975)"
proof -
  note digest_loop.simps [simp del]
  have su: "stamp_usable (alice_at k)" "stamp_usable bob" for k
    by (simp_all add: stamp_usable_def alice_at_def bob_def)
  have la: "last_digest_sent_at (alice_at k) = Some (Aware (timedelta_hours k) 0)" for k
    by (simp add: alice_at_def)
  have lb: "last_digest_sent_at bob = None" by (simp add: bob_def)
  have t: "now_utc example_env < timedelta_hours 990 - 0 + timedelta_hours 23"
    "timedelta_hours 977 - 0 = now_utc example_env - timedelta_hours 23"
    "timedelta_hours 975 - 0 = now_utc example_env - timedelta_hours 25"
    by (simp_all add: example_env_def timedelta_hours_def)
  have en: "filter email_notifications_enabled (users (db (world_with [alice_at 990, bob] two_updates)))
              = [alice_at 990, bob]"
    by (simp add: world_with_def alice_at_def alice_def bob_def)
  have ub: "u_id bob = 2" by (simp add: bob_def)
  have h1: "\<forall>u\<in>set [alice_at 990, bob]. stamp_usable u" using su by simp
  have h2: "\<forall>u\<in>set [alice_at 990]. stamp_usable u" using su by simp
  have h3: "\<forall>u\<in>set [bob, alice_at 990]. stamp_usable u" using su by simp
  have h4: "\<forall>u\<in>set [alice_at 977, alice_at 975]. stamp_usable u" using su by simp
  note r1 = digest_skip_rule [OF h1, of example_env "world_with [alice_at 990, bob] two_updates"]
  note r2 = digest_skip_rule [OF h2, of example_env "world_with [alice_at 990] two_updates"]
  note r3 = digest_skip_rule [OF h3, of example_env "world_with [bob, alice_at 990] two_updates"]
  note r4 = digest_skip_rule [OF h4, of example_env "world_with [alice_at 977, alice_at 975] two_updates"]
  have sa: "skip_rule example_env (alice_at 990)" using r1 la [of 990] t by simp
  have sb: "\<not> skip_rule example_env bob" using r1 lb by simp
  have da: "digest_not_yet_time example_env (alice_at 990) = Inr True" using r1 sa by simp
  have db: "digest_not_yet_time example_env bob = Inr False" using r1 sb by simp
  have f: "filter (\<lambda>u. \<not> skip_rule example_env u) [alice_at 990, bob] = [bob]"
    using sa sb by simp
  have run: "scheduled_digest_sender_task example_env (world_with [alice_at 990, bob] two_updates)
       = digest_loop example_env [bob] (world_with [alice_at 990, bob] two_updates)"
    using r1 en f by simp
  have lp: "digest_loop example_env [alice_at 990, bob] (world_with [alice_at 990, bob] two_updates)
       = digest_loop example_env [bob] (world_with [alice_at 990, bob] two_updates)"
    using r1 f by simp
  have all: "digest_loop example_env [alice_at 990] (world_with [alice_at 990] two_updates)
       = (Inr (), world_with [alice_at 990] two_updates)"
  proof -
    have "\<forall>u\<in>set [alice_at 990]. skip_rule example_env u" using sa by simp
    with r2 show ?thesis by blast
  qed
  have fe: "DigestFetch 2
        \<in> set (trace (snd (digest_loop example_env [bob, alice_at 990]
                               (world_with [bob, alice_at 990] two_updates))))"
  proof -
    from r3 have "\<forall>u rest. [bob, alice_at 990] = u # rest \<and> \<not> skip_rule example_env u \<longrightarrow>
            (\<exists>tr. trace (snd (digest_loop example_env [bob, alice_at 990]
                                  (world_with [bob, alice_at 990] two_updates)))
                    = trace (world_with [bob, alice_at 990] two_updates) @ DigestFetch (u_id u) # tr)"
      by blast
    with sb obtain tr where
      "trace (snd (digest_loop example_env [bob, alice_at 990]
                     (world_with [bob, alice_at 990] two_updates)))
         = trace (world_with [bob, alice_at 990] two_updates) @ DigestFetch (u_id bob) # tr"
      by blast
    then show ?thesis by (simp add: ub)
  qed
  have m4: "alice_at 977 \<in> set [alice_at 977, alice_at 975]"
    "alice_at 975 \<in> set [alice_at 977, alice_at 975]"
    by simp_all
  from r4 have c23: "\<forall>u\<in>set [alice_at 977, alice_at 975]. \<forall>t off.
      last_digest_sent_at u = Some (Aware t off)
      \<and> t - off = now_utc example_env - timedelta_hours 23 \<longrightarrow> \<not> skip_rule example_env u"
    by blast
  from r4 have c25: "\<forall>u\<in>set [alice_at 977, alice_at 975]. \<forall>t off.
      last_digest_sent_at u = Some (Aware t off)
      \<and> t - off = now_utc example_env - timedelta_hours 25 \<longrightarrow> \<not> skip_rule example_env u"
    by blast
  have b23: "\<not> skip_rule example_env (alice_at 977)"
    using c23 m4(1) la [of 977] t(2) by blast
  have b25: "\<not> skip_rule example_env (alice_at 975)"
    using c25 m4(2) la [of 975] t(3) by blast
  from su sa sb da db run lp all fe b23 b25 show ?thesis by blast
qed

lemma fetch_two:
  "fst (get_notifications_for_digest 1 (Some (Aware (timedelta_hours h) 0))
          EXCLUDED_FROM_DIGEST_TYPES DIGEST_NOTIFICATION_TYPES (world_with us two_updates))
   = (if h < 990 then two_updates else if h < 995 then [game_update 2 1 995] else [])"
  by (simp add: get_notifications_for_digest_def world_with_def two_updates_def game_update_def
        EXCLUDED_FROM_DIGEST_TYPES_def DIGEST_NOTIFICATION_TYPES_def timedelta_hours_def empty_db_def)

text \<open>
  The claim C3 as stated fails twice. With the clock at hour 1000, a user whose last
  digest went out at hour 977, exactly 23 hours ago, is not skipped: her notifications
  are fetched. And for a user whose last digest is 25 hours old, with two pending
  notifications, the run ends in \<^verbatim>\<open>AttributeError\<close> after the fetch: nothing is sent and
  no notification is marked.
\<close>

theorem digest_boundary_counterexample:
  "digest_not_yet_time example_env (alice_at 977) = Inr False
   \<and> utc_instant (Aware (timedelta_hours 977) 0) = now_utc example_env - timedelta_hours 23
   \<and> scheduled_digest_sender_task example_env (world_with [alice_at 977] two_updates)
       = (Inl AttributeError, (world_with [alice_at 977] two_updates)\<lparr>trace := [DigestFetch 1]\<rparr>)
   \<and> utc_instant (Aware (timedelta_hours 975) 0) = now_utc example_env - timedelta_hours 25
   \<and> scheduled_digest_sender_task example_env (world_with [alice_at 975] two_updates)
       = (Inl AttributeError, (world_with [alice_at 975] two_updates)\<lparr>trace := [DigestFetch 1]\<rparr>)"
proof -
  have n: "digest_not_yet_time example_env (alice_at h) = Inr (1000 < h + 23)" for h
    by (simp add: digest_not_yet_time_aware [of _ "timedelta_hours h" 0] alice_at_def
          example_env_def timedelta_hours_def)
  have u: "users (db (world_with us ns)) = us" for us ns
    by (simp add: world_with_def)
  have t: "trace (world_with us ns) = []" for us ns
    by (simp add: world_with_def empty_world_def)
  have en: "email_notifications_enabled (alice_at h)" "u_id (alice_at h) = 1"
    "last_digest_sent_at (alice_at h) = Some (Aware (timedelta_hours h) 0)" for h
    by (simp_all add: alice_at_def alice_def)
  have tu: "two_updates \<noteq> []" by (simp add: two_updates_def)
  have r: "h < 990 \<Longrightarrow> \<not> 1000 < h + 23 \<Longrightarrow>
      scheduled_digest_sender_task example_env (world_with [alice_at h] two_updates)
       = (Inl AttributeError, (world_with [alice_at h] two_updates)\<lparr>trace := [DigestFetch 1]\<rparr>)" for h
    by (simp add: scheduled_digest_sender_task_def u en n send_digests_for_user_value fetch_two tu t)
  have a: "digest_not_yet_time example_env (alice_at 977) = Inr False"
    by (simp add: n)
  have b: "utc_instant (Aware (timedelta_hours 977) 0) = now_utc example_env - timedelta_hours 23"
    "utc_instant (Aware (timedelta_hours 975) 0) = now_utc example_env - timedelta_hours 25"
    by (simp_all add: example_env_def timedelta_hours_def)
  have r23: "scheduled_digest_sender_task example_env (world_with [alice_at 977] two_updates)
       = (Inl AttributeError, (world_with [alice_at 977] two_updates)\<lparr>trace := [DigestFetch 1]\<rparr>)"
    by (rule r) simp_all
  have r25: "scheduled_digest_sender_task example_env (world_with [alice_at 975] two_updates)
       = (Inl AttributeError, (world_with [alice_at 975] two_updates)\<lparr>trace := [DigestFetch 1]\<rparr>)"
    by (rule r) simp_all
  from a b r23 r25 show ?thesis by blast
qed

text \<open>
  C5, at two users of whom the first has a pending game update: preparing that
  notification raises \<^verbatim>\<open>AttributeError\<close> outside the \<^verbatim>\<open>try\<close> statement, the exception
  leaves the loop, and the second user's notifications are never fetched.
\<close>

theorem digest_render_failure_aborts_run:
  "scheduled_digest_sender_task example_env (world_with [alice, bob] [game_update 1 1 990])
     = (Inl AttributeError, (world_with [alice, bob] [game_update 1 1 990])\<lparr>trace := [DigestFetch 1]\<rparr>)
   \<and> DigestFetch 2 \<notin> set (trace (snd (scheduled_digest_sender_task example_env
                                          (world_with [alice, bob] [game_update 1 1 990]))))"
proof -
  have f: "fst (get_notifications_for_digest 1
        (Some (dt_add (datetime_now_utc example_env) (- timedelta_hours DIGEST_PERIOD_HOURS)))
        EXCLUDED_FROM_DIGEST_TYPES DIGEST_NOTIFICATION_TYPES
        (world_with [alice, bob] [game_update 1 1 990])) = [game_update 1 1 990]"
    by (simp add: get_notifications_for_digest_def world_with_def game_update_def
        EXCLUDED_FROM_DIGEST_TYPES_def DIGEST_NOTIFICATION_TYPES_def timedelta_hours_def empty_db_def
        datetime_now_utc_def example_env_def DIGEST_PERIOD_HOURS_def)
  have a: "last_digest_sent_at alice = None" "u_id alice = 1" "email_notifications_enabled alice"
    "email_notifications_enabled bob"
    by (simp_all add: alice_def bob_def)
  have 1: "scheduled_digest_sender_task example_env (world_with [alice, bob] [game_update 1 1 990])
     = (Inl AttributeError, (world_with [alice, bob] [game_update 1 1 990])\<lparr>trace := [DigestFetch 1]\<rparr>)"
    using f
    by (simp add: scheduled_digest_sender_task_def send_digests_for_user_value a
          digest_not_yet_time_def world_with_def empty_world_def)
  show ?thesis by (simp add: 1)
qed

text \<open>
  The \<^verbatim>\<open>try\<close> statement of the digest, taken by itself. With no mailer, or with a
  recipient that is no valid address, the send raises, the session is rolled back and
  nothing new is committed.
\<close>

lemma raised_send_commits_nothing:
  "\<not> fm_instance e \<or> \<not> valid_email e (recipient_email task) \<Longrightarrow>
   send_digest_and_commit e user ns task w = db_rollback w"
  by (auto simp: send_digest_and_commit_def send_email_notification_def)

text \<open>
  With the mailer initialised, the address valid and the mail server refusing the
  message, \<open>send_email_notification\<close> swallows the failure: the notification is committed
  as e-mailed and \<^verbatim>\<open>last_digest_sent_at\<close> is set.
\<close>

lemma swallowed_send_failure_commits:
  "fm_instance example_env \<and> \<not> smtp_ok example_env (email alice)
   \<and> trace (send_digest_and_commit example_env alice [game_update 1 1 990] example_digest_task
              (world_with [alice] [game_update 1 1 990]))
       = [SendMessage example_digest_task False]
   \<and> map emailed_in_digest
        (notifications (db_committed
           (send_digest_and_commit example_env alice [game_update 1 1 990] example_digest_task
              (world_with [alice] [game_update 1 1 990])))) = [True]
   \<and> map last_digest_sent_at
        (users (db_committed
           (send_digest_and_commit example_env alice [game_update 1 1 990] example_digest_task
              (world_with [alice] [game_update 1 1 990]))))
       = [Some (Aware (timedelta_hours 1000) 0)]"
  by (simp add: send_digest_and_commit_def send_email_notification_def
        mark_notifications_as_emailed_in_digest_def update_user_last_digest_sent_time_def
        get_user_by_id_def db_commit_def world_with_def empty_world_def empty_db_def
        example_env_def example_digest_task_def digest_email_task_def alice_def game_update_def
        func_now_def)

text \<open>
  No run reaches that statement: every fetched notification is of a digest type and
  raises while it is prepared, so a digest run leaves the session and the committed
  database as they were.
\<close>

lemma digest_run_never_commits:
  "db (snd (digest_loop e us w)) = db w \<and> db_committed (snd (digest_loop e us w)) = db_committed w"
proof (induction us arbitrary: w)
  case Nil
  then show ?case by simp
next
  case (Cons u us)
  let ?w1 = "w\<lparr>trace := trace w @ [DigestFetch (u_id u)]\<rparr>"
  have ih: "db (snd (digest_loop e us ?w1)) = db w
          \<and> db_committed (snd (digest_loop e us ?w1)) = db_committed w"
    using Cons.IH [of ?w1] by simp
  show ?case
  proof (cases "digest_not_yet_time e u")
    case (Inl err)
    then show ?thesis by simp
  next
    case (Inr b)
    with Cons.IH [of w] ih show ?thesis
      by (cases b) (auto simp: send_digests_for_user_value)
  qed
qed

end
